theory Spec2Isabelle
  imports Complex_Main
begin

section \<open>JavaScript values\<close>

text \<open>
  A JavaScript number is an IEEE double.  The model keeps the three special values
  apart and idealises every finite double as a real number (no rounding error, no
  signed zero: a zero divisor counts as \<open>+0\<close>).  Comparisons with \<open>NaN\<close> are false and
  arithmetic on \<open>NaN\<close> gives \<open>NaN\<close>, as in the language.
\<close>

datatype jsnum = Fin real | PosInfinity | NegInfinity | NaN

fun js_ge :: "jsnum \<Rightarrow> jsnum \<Rightarrow> bool" where
  "js_ge NaN _ = False"
| "js_ge _ NaN = False"
| "js_ge PosInfinity _ = True"
| "js_ge _ NegInfinity = True"
| "js_ge NegInfinity _ = False"
| "js_ge _ PosInfinity = False"
| "js_ge (Fin a) (Fin b) = (b \<le> a)"

text \<open>\<open>inf_times a\<close> is \<open>a * Infinity\<close> for a finite \<open>a\<close>.\<close>

definition inf_times :: "real \<Rightarrow> jsnum" where
  "inf_times a = (if a = 0 then NaN else if 0 < a then PosInfinity else NegInfinity)"

fun js_neg :: "jsnum \<Rightarrow> jsnum" where
  "js_neg (Fin a) = Fin (- a)"
| "js_neg PosInfinity = NegInfinity"
| "js_neg NegInfinity = PosInfinity"
| "js_neg NaN = NaN"

fun js_add :: "jsnum \<Rightarrow> jsnum \<Rightarrow> jsnum" where
  "js_add (Fin a) (Fin b) = Fin (a + b)"
| "js_add NaN _ = NaN"
| "js_add _ NaN = NaN"
| "js_add PosInfinity NegInfinity = NaN"
| "js_add NegInfinity PosInfinity = NaN"
| "js_add PosInfinity _ = PosInfinity"
| "js_add NegInfinity _ = NegInfinity"
| "js_add _ PosInfinity = PosInfinity"
| "js_add _ NegInfinity = NegInfinity"

definition js_sub :: "jsnum \<Rightarrow> jsnum \<Rightarrow> jsnum" where
  "js_sub a b = js_add a (js_neg b)"

fun js_mul :: "jsnum \<Rightarrow> jsnum \<Rightarrow> jsnum" where
  "js_mul (Fin a) (Fin b) = Fin (a * b)"
| "js_mul NaN _ = NaN"
| "js_mul _ NaN = NaN"
| "js_mul (Fin a) PosInfinity = inf_times a"
| "js_mul (Fin a) NegInfinity = inf_times (- a)"
| "js_mul PosInfinity (Fin b) = inf_times b"
| "js_mul NegInfinity (Fin b) = inf_times (- b)"
| "js_mul PosInfinity PosInfinity = PosInfinity"
| "js_mul PosInfinity NegInfinity = NegInfinity"
| "js_mul NegInfinity PosInfinity = NegInfinity"
| "js_mul NegInfinity NegInfinity = PosInfinity"

fun js_div :: "jsnum \<Rightarrow> jsnum \<Rightarrow> jsnum" where
  "js_div (Fin a) (Fin b) = (if b = 0 then inf_times a else Fin (a / b))"
| "js_div NaN _ = NaN"
| "js_div _ NaN = NaN"
| "js_div (Fin a) _ = Fin 0"
| "js_div PosInfinity (Fin b) = (if 0 \<le> b then PosInfinity else NegInfinity)"
| "js_div NegInfinity (Fin b) = (if 0 \<le> b then NegInfinity else PosInfinity)"
| "js_div _ _ = NaN"

text \<open>\<open>Math.round\<close> rounds half up; \<open>Math.floor\<close>, \<open>Math.max\<close> and \<open>Math.min\<close>.\<close>

definition round_real :: "real \<Rightarrow> real" where
  "round_real x = of_int \<lfloor>x + 1 / 2\<rfloor>"

fun Math_round :: "jsnum \<Rightarrow> jsnum" where
  "Math_round (Fin a) = Fin (round_real a)"
| "Math_round x = x"

fun Math_floor :: "jsnum \<Rightarrow> jsnum" where
  "Math_floor (Fin a) = Fin (of_int \<lfloor>a\<rfloor>)"
| "Math_floor x = x"

fun Math_max :: "jsnum \<Rightarrow> jsnum \<Rightarrow> jsnum" where
  "Math_max NaN _ = NaN"
| "Math_max _ NaN = NaN"
| "Math_max a b = (if js_ge a b then a else b)"

fun Math_min :: "jsnum \<Rightarrow> jsnum \<Rightarrow> jsnum" where
  "Math_min NaN _ = NaN"
| "Math_min _ NaN = NaN"
| "Math_min a b = (if js_ge a b then b else a)"

text \<open>The values a payload field can hold.\<close>

datatype jsval =
  JUndefined | JNull | JBool bool | JNum jsnum | JStr string | JObject "(string \<times> jsval) list"

text \<open>\<open>truthy v\<close> is the outcome of \<open>!!v\<close>; \<open>is_number v\<close> of \<open>typeof v === 'number'\<close>.\<close>

fun truthy :: "jsval \<Rightarrow> bool" where
  "truthy JUndefined = False"
| "truthy JNull = False"
| "truthy (JBool b) = b"
| "truthy (JNum (Fin a)) = (a \<noteq> 0)"
| "truthy (JNum NaN) = False"
| "truthy (JNum _) = True"
| "truthy (JStr s) = (s \<noteq> [])"
| "truthy (JObject _) = True"

fun is_number :: "jsval \<Rightarrow> bool" where
  "is_number (JNum _) = True"
| "is_number _ = False"

section \<open>Strings\<close>

text \<open>\<open>split_on c s\<close> is \<open>s.split(c)\<close> for a one-character separator: never empty.\<close>

fun split_on :: "char \<Rightarrow> string \<Rightarrow> string list" where
  "split_on c [] = [[]]"
| "split_on c (x # xs) =
     (if x = c then [] # split_on c xs
      else (case split_on c xs of [] \<Rightarrow> [[x]] | p # ps \<Rightarrow> (x # p) # ps))"

text \<open>\<open>s.replace(/-/g, '_')\<close>.\<close>

definition replace_hyphens :: "string \<Rightarrow> string" where
  "replace_hyphens s = map (\<lambda>c. if c = CHR ''-'' then CHR ''_'' else c) s"

definition startsWith :: "string \<Rightarrow> string \<Rightarrow> bool" where
  "startsWith s p = (take (length p) s = p)"

text \<open>Case mapping, on the ASCII letters (the axis labels are ASCII).\<close>

definition lower_letters :: string where
  "lower_letters = ''abcdefghijklmnopqrstuvwxyz''"

definition upper_letters :: string where
  "upper_letters = ''ABCDEFGHIJKLMNOPQRSTUVWXYZ''"

definition toUpperCase :: "string \<Rightarrow> string" where
  "toUpperCase s =
     map (\<lambda>c. case map_of (zip lower_letters upper_letters) c of Some u \<Rightarrow> u | None \<Rightarrow> c) s"

definition toLowerCase :: "string \<Rightarrow> string" where
  "toLowerCase s =
     map (\<lambda>c. case map_of (zip upper_letters lower_letters) c of Some l \<Rightarrow> l | None \<Rightarrow> c) s"

text \<open>\<open>xs.indexOf(x)\<close> and \<open>xs.slice(0, n)\<close>.\<close>

fun indexOf :: "'a list \<Rightarrow> 'a \<Rightarrow> int" where
  "indexOf [] x = - 1"
| "indexOf (y # ys) x = (if y = x then 0 else (let i = indexOf ys x in if i < 0 then - 1 else i + 1))"

definition slice0 :: "'a list \<Rightarrow> int \<Rightarrow> 'a list" where
  "slice0 xs n = (if n < 0 then take (nat (int (length xs) + n)) xs else take (nat n) xs)"

text \<open>Decimal rendering of an integer inside a template literal.\<close>

definition digit_char :: "nat \<Rightarrow> char" where
  "digit_char d = ''0123456789'' ! d"

function string_of_nat :: "nat \<Rightarrow> string" where
  "string_of_nat n = (if n < 10 then [digit_char n] else string_of_nat (n div 10) @ [digit_char (n mod 10)])"
  by pat_completeness auto
termination
  by (relation "measure id") auto

definition string_of_int :: "int \<Rightarrow> string" where
  "string_of_int i = (if i < 0 then CHR ''-'' # string_of_nat (nat (- i)) else string_of_nat (nat i))"

text \<open>
  \<open>Date.prototype.toISOString\<close> of a time value: the proleptic Gregorian date of the day
  number, then the time of day.  A year outside 0..9999 is written with a sign and six
  digits.
\<close>

definition zero_pad :: "nat \<Rightarrow> nat \<Rightarrow> string" where
  "zero_pad w n = (let s = string_of_nat n in replicate (w - length s) CHR ''0'' @ s)"

definition civil_from_days :: "int \<Rightarrow> int \<times> int \<times> int" where
  "civil_from_days days =
     (let z = days + 719468;
          era = z div 146097;
          doe = z - era * 146097;
          yoe = (doe - doe div 1460 + doe div 36524 - doe div 146096) div 365;
          doy = doe - (365 * yoe + yoe div 4 - yoe div 100);
          mp = (5 * doy + 2) div 153;
          d = doy - (153 * mp + 2) div 5 + 1;
          m = (if mp < 10 then mp + 3 else mp - 9);
          y = yoe + era * 400 + (if m \<le> 2 then 1 else 0)
      in (y, m, d))"

definition toISOString :: "int \<Rightarrow> string" where
  "toISOString t =
     (let rest = t mod 86400000 in
      case civil_from_days (t div 86400000) of (y, m, d) \<Rightarrow>
        (if 0 \<le> y \<and> y \<le> 9999 then zero_pad 4 (nat y)
         else (if y < 0 then ''-'' else ''+'') @ zero_pad 6 (nat \<bar>y\<bar>))
        @ ''-'' @ zero_pad 2 (nat m) @ ''-'' @ zero_pad 2 (nat d)
        @ ''T'' @ zero_pad 2 (nat (rest div 3600000))
        @ '':'' @ zero_pad 2 (nat (rest div 60000 mod 60))
        @ '':'' @ zero_pad 2 (nat (rest div 1000 mod 60))
        @ ''.'' @ zero_pad 3 (nat (rest mod 1000)) @ ''Z'')"

section \<open>Machine configuration (cnc-data-generator.ts)\<close>

datatype OperationalStatus =
  S_operational | S_maintenance | S_offline | S_error | S_running | S_setup | S_idle

fun status_str :: "OperationalStatus \<Rightarrow> string" where
  "status_str S_operational = ''operational''"
| "status_str S_maintenance = ''maintenance''"
| "status_str S_offline = ''offline''"
| "status_str S_error = ''error''"
| "status_str S_running = ''running''"
| "status_str S_setup = ''setup''"
| "status_str S_idle = ''idle''"

record capabilities =
  spindle_rpm_max :: real
  axes :: int
  tool_changer :: bool
  simultaneous_axes :: int
  coolant_system :: bool

record specifications =
  spindle_power_kw :: real
  rapid_traverse_mm_min :: real
  work_envelope :: string

record CNCMachineConfig =
  machine_id :: string
  display_name :: string
  manufacturer :: string
  model :: string
  enterprise :: string
  site :: string
  area :: string
  work_cell :: string
  operational_status :: OperationalStatus
  caps :: capabilities
  specs :: specifications

text \<open>
  \<open>getLocationConfig\<close> reads four environment variables; \<open>None\<close> is an unset variable,
  and \<open>||\<close> also skips an empty one.
\<close>

definition env_or :: "string option \<Rightarrow> string \<Rightarrow> string" where
  "env_or v d = (case v of None \<Rightarrow> d | Some s \<Rightarrow> if s = [] then d else s)"

definition getLocationConfig ::
  "string option \<Rightarrow> string option \<Rightarrow> string option \<Rightarrow> string option \<Rightarrow> string \<times> string" where
  "getLocationConfig FACTORY_NAME ENTERPRISE_NAME SITE_NAME PLANT_NAME =
     (env_or FACTORY_NAME (env_or ENTERPRISE_NAME ''demo-factory''),
      env_or SITE_NAME (env_or PLANT_NAME ''plant1''))"

text \<open>
  One entry of the roster.  The entries of the source differ in the fields that
  \<open>mk_machine\<close> takes; the other fields are the same in all of them.
\<close>

definition mk_machine ::
  "string \<Rightarrow> string \<Rightarrow> string \<Rightarrow> string \<Rightarrow> string \<Rightarrow> string \<Rightarrow> string \<Rightarrow> string \<Rightarrow>
   OperationalStatus \<Rightarrow> real \<Rightarrow> int \<Rightarrow> real \<Rightarrow> real \<Rightarrow> string \<Rightarrow> CNCMachineConfig" where
  "mk_machine mid dn mf md ent st ar wc os rpm ax kw rapid env =
     \<lparr>machine_id = mid, display_name = dn, manufacturer = mf, model = md, enterprise = ent,
      site = st, area = ar, work_cell = wc, operational_status = os,
      caps = \<lparr>spindle_rpm_max = rpm, axes = ax, tool_changer = True, simultaneous_axes = ax,
               coolant_system = True\<rparr>,
      specs = \<lparr>spindle_power_kw = kw, rapid_traverse_mm_min = rapid, work_envelope = env\<rparr>\<rparr>"

text \<open>
  The ten machines of \<open>generateMachineConfigs\<close>, in the order of the source.  Every
  machine of the source has a tool changer and a coolant system, and as many
  simultaneous axes as axes.  The two bytes in the names of \<open>cnc-009\<close> are the Greek
  letter alpha.
\<close>

definition generateMachineConfigs :: "string \<times> string \<Rightarrow> CNCMachineConfig list" where
  "generateMachineConfigs loc =
     (case loc of (ent, st) \<Rightarrow>
      [mk_machine ''cnc-001'' ''Haas VF-2 Mill #1'' ''Haas'' ''VF-2'' ent st ''machining'' ''cell-01''
         S_operational 8100 3 15 25400 ''762x406x508'',
       mk_machine ''cnc-002'' ''Haas VF-2 Mill #2'' ''Haas'' ''VF-2'' ent st ''machining'' ''cell-01''
         S_operational 8100 3 15 25400 ''762x406x508'',
       mk_machine ''cnc-003'' ''DMG Mori NLX2500 Lathe #1'' ''DMG Mori'' ''NLX2500'' ent st ''turning''
         ''cell-02'' S_operational 4500 2 22 30000 ''400x800x350'',
       mk_machine ''cnc-004'' ''DMG Mori NLX2500 Lathe #2'' ''DMG Mori'' ''NLX2500'' ent st ''turning''
         ''cell-02'' S_operational 4500 2 22 30000 ''400x800x350'',
       mk_machine ''cnc-005'' ''Mazak Integrex i-300 Multi-Axis #1'' ''Mazak'' ''Integrex i-300'' ent st
         ''multi-axis'' ''cell-03'' S_operational 6000 5 30 36000 ''500x850x450'',
       mk_machine ''cnc-006'' ''Mazak Integrex i-300 Multi-Axis #2'' ''Mazak'' ''Integrex i-300'' ent st
         ''multi-axis'' ''cell-03'' S_maintenance 6000 5 30 36000 ''500x850x450'',
       mk_machine ''cnc-007'' ''Okuma Genos L250-E Lathe'' ''Okuma'' ''Genos L250-E'' ent st ''turning''
         ''cell-04'' S_operational 5000 2 18.5 24000 ''350x780x300'',
       mk_machine ''cnc-008'' ''Doosan DNM 500 Mill'' ''Doosan'' ''DNM 500'' ent st ''machining''
         ''cell-05'' S_operational 12000 3 11 36000 ''500x400x330'',
       mk_machine ''cnc-009'' (''Fanuc Robodrill '' @ [CHR 0xCE, CHR 0xB1] @ ''-T14iE Mill'') ''Fanuc''
         (''Robodrill '' @ [CHR 0xCE, CHR 0xB1] @ ''-T14iE'') ent st ''precision'' ''cell-06''
         S_operational 24000 3 7.5 60000 ''350x250x220'',
       mk_machine ''cnc-010'' ''Mori Seiki NV5000 DCG Mill'' ''Mori Seiki'' ''NV5000 DCG'' ent st
         ''precision'' ''cell-06'' S_offline 15000 5 22 50000 ''560x510x460''])"

section \<open>The environment of a call\<close>

text \<open>
  The code reads the clock (\<open>new Date()\<close>, \<open>Date.now()\<close>) and the random generator
  (\<open>Math.random()\<close>) wherever it needs them.  Each place that reads one is a call site, and
  the environment says what the read returns there; clock readings are time values in
  milliseconds.  \<open>parseFloat\<close> is the runtime's function of that name, and
  \<open>OUTPUT_FORMAT\<close> is the environment variable of that name.
\<close>

datatype callsite =
    In_constructor_lastUpdate | In_constructor_cycleStartTime | In_constructor_vibration
  | In_constructor_temperature | In_constructor_tool int | In_initializeCycle
  | In_updateCycle | In_advanceCyclePhase | In_advanceCyclePhase_branch
  | In_generateSensorReadings | In_SpindleSpeed | In_SpindleLoad | In_AxisPosition string
  | In_Feedrate | In_Vibration | In_Temperature | In_CurrentTool | In_CoolantPressure
  | In_CoolantFlow | In_OperationalStatus | In_CyclePhase | In_PartsCount
  | In_Efficiency | In_Efficiency_machining

record env =
  Date_now :: "callsite \<Rightarrow> int"
  Math_random :: "callsite \<Rightarrow> real"
  OUTPUT_FORMAT :: "string option"
  parseFloat :: "string \<Rightarrow> jsnum"

section \<open>The operation cycle of one machine\<close>

datatype phase = P_idle | P_loading | P_machining | P_unloading | P_maintenance | P_error

fun phase_str :: "phase \<Rightarrow> string" where
  "phase_str P_idle = ''idle''"
| "phase_str P_loading = ''loading''"
| "phase_str P_machining = ''machining''"
| "phase_str P_unloading = ''unloading''"
| "phase_str P_maintenance = ''maintenance''"
| "phase_str P_error = ''error''"

text \<open>\<open>startTime\<close> is the time value of the \<open>Date\<close>, in milliseconds; \<open>duration\<close> is in seconds.\<close>

record MachineOperationCycle =
  phase :: phase
  duration :: jsnum
  startTime :: int

record CNCDataGenerator =
  machine :: CNCMachineConfig
  currentCycle :: MachineOperationCycle
  lastUpdate :: int
  cycleStartTime :: int
  totalPartsProduced :: int
  toolWearFactors :: "int \<rightharpoonup> real"
  vibrationBaseline :: real
  temperatureBaseline :: real

text \<open>\<open>initializeCycle\<close>, with the value \<open>now\<close> of its \<open>new Date()\<close> and the draw \<open>r\<close>.\<close>

definition initializeCycle :: "int \<Rightarrow> real \<Rightarrow> CNCMachineConfig \<Rightarrow> MachineOperationCycle" where
  "initializeCycle now r m =
     (if operational_status m = S_maintenance then
        \<lparr>phase = P_maintenance, duration = Fin 3600, startTime = now\<rparr>
      else if operational_status m = S_offline then
        \<lparr>phase = P_idle, duration = PosInfinity, startTime = now\<rparr>
      else
        \<lparr>phase = P_idle, duration = Fin (r * 300 + 60), startTime = now\<rparr>)"

text \<open>The constructor; its loop sets the wear of the tools 1 to 20.\<close>

definition new_CNCDataGenerator :: "env \<Rightarrow> CNCMachineConfig \<Rightarrow> CNCDataGenerator" where
  "new_CNCDataGenerator e m =
     \<lparr>machine = m,
      currentCycle = initializeCycle (Date_now e In_initializeCycle) (Math_random e In_initializeCycle) m,
      lastUpdate = Date_now e In_constructor_lastUpdate,
      cycleStartTime = Date_now e In_constructor_cycleStartTime,
      totalPartsProduced = 0,
      toolWearFactors =
        fold (\<lambda>i w. w(i \<mapsto> Math_random e (In_constructor_tool i) * 0.3)) [1..20] Map.empty,
      vibrationBaseline = Math_random e In_constructor_vibration * 0.5 + 0.1,
      temperatureBaseline = Math_random e In_constructor_temperature * 10 + 45\<rparr>"

text \<open>
  \<open>advanceCyclePhase\<close>: \<open>now\<close> is the value of its own \<open>new Date()\<close>; \<open>rb\<close> is the
  draw that picks the branch after unloading and \<open>r\<close> the draw that sizes the new
  duration (the only draw in the other phases).
\<close>

definition advanceCyclePhase :: "int \<Rightarrow> real \<Rightarrow> real \<Rightarrow> CNCDataGenerator \<Rightarrow> CNCDataGenerator" where
  "advanceCyclePhase now rb r g =
     (case phase (currentCycle g) of
        P_idle \<Rightarrow>
          g\<lparr>currentCycle := \<lparr>phase = P_loading, duration = Fin (r * 120 + 30), startTime = now\<rparr>\<rparr>
      | P_loading \<Rightarrow>
          g\<lparr>currentCycle := \<lparr>phase = P_machining, duration = Fin (r * 1800 + 600), startTime = now\<rparr>\<rparr>
      | P_machining \<Rightarrow>
          g\<lparr>currentCycle := \<lparr>phase = P_unloading, duration = Fin (r * 60 + 15), startTime = now\<rparr>,
            totalPartsProduced := totalPartsProduced g + 1\<rparr>
      | P_unloading \<Rightarrow>
          (if rb < 0.05 then
             g\<lparr>currentCycle := \<lparr>phase = P_error, duration = Fin (r * 600 + 300), startTime = now\<rparr>\<rparr>
           else if rb < 0.15 then
             g\<lparr>currentCycle := \<lparr>phase = P_maintenance, duration = Fin (r * 3600 + 900), startTime = now\<rparr>\<rparr>
           else
             g\<lparr>currentCycle := \<lparr>phase = P_idle, duration = Fin (r * 300 + 60), startTime = now\<rparr>\<rparr>)
      | P_maintenance \<Rightarrow>
          g\<lparr>currentCycle := \<lparr>phase = P_idle, duration = Fin (r * 300 + 60), startTime = now\<rparr>\<rparr>
      | P_error \<Rightarrow>
          g\<lparr>currentCycle := \<lparr>phase = P_idle, duration = Fin (r * 300 + 60), startTime = now\<rparr>\<rparr>)"

text \<open>
  \<open>updateCycle\<close>: \<open>now\<close> is the value of its \<open>new Date()\<close>, \<open>adv\<close> the value of the
  one read inside \<open>advanceCyclePhase\<close>.
\<close>

definition updateCycle :: "int \<Rightarrow> int \<Rightarrow> real \<Rightarrow> real \<Rightarrow> CNCDataGenerator \<Rightarrow> CNCDataGenerator" where
  "updateCycle now adv rb r g =
     (let elapsedSeconds = Fin (real_of_int (now - startTime (currentCycle g)) / 1000) in
      if js_ge elapsedSeconds (duration (currentCycle g)) then advanceCyclePhase adv rb r g else g)"

section \<open>Sensor readings\<close>

datatype quality = Q_good | Q_bad | Q_uncertain

text \<open>\<open>MQTTPayload\<close> (uns-types.ts); \<open>timestamp\<close> is the ISO 8601 string.\<close>

record MQTTPayload =
  timestamp :: string
  source :: string
  payload_value :: jsval
  payload_unit :: "string option"
  quality :: "quality option"
  metadata :: "(string \<times> jsval) list option"

record SensorReading =
  topicPath :: string
  payload :: MQTTPayload

definition num :: "real \<Rightarrow> jsval" where
  "num x = JNum (Fin x)"

definition generateSpindleSpeedPayload :: "env \<Rightarrow> int \<Rightarrow> CNCDataGenerator \<Rightarrow> MQTTPayload" where
  "generateSpindleSpeedPayload e ts g =
     (let rpm_max = spindle_rpm_max (caps (machine g));
          rpm = (case phase (currentCycle g) of
                   P_machining \<Rightarrow>
                     (let baseRpm = rpm_max * (0.3 + Math_random e In_SpindleSpeed * 0.6) in
                      baseRpm + sin (real_of_int (Date_now e In_SpindleSpeed) / 10000) * baseRpm * 0.1)
                 | P_loading \<Rightarrow> rpm_max * 0.1
                 | P_unloading \<Rightarrow> rpm_max * 0.1
                 | _ \<Rightarrow> 0)
      in \<lparr>timestamp = toISOString ts, source = machine_id (machine g),
          payload_value = num (max 0 (round_real rpm)),
          payload_unit = Some ''rpm'',
          quality = Some (if 0 < rpm then Q_good else Q_good),
          metadata = Some [(''max_rpm'', num rpm_max),
                           (''phase'', JStr (phase_str (phase (currentCycle g))))]\<rparr>)"

definition generateSpindleLoadPayload :: "env \<Rightarrow> int \<Rightarrow> CNCDataGenerator \<Rightarrow> MQTTPayload" where
  "generateSpindleLoadPayload e ts g =
     (let loadPercent =
            (case phase (currentCycle g) of
               P_machining \<Rightarrow>
                 30 + Math_random e In_SpindleLoad * 50
                    + sin (real_of_int (Date_now e In_SpindleLoad) / 15000) * 20
             | P_loading \<Rightarrow> 5 + Math_random e In_SpindleLoad * 10
             | P_unloading \<Rightarrow> 5 + Math_random e In_SpindleLoad * 10
             | _ \<Rightarrow> 0)
      in \<lparr>timestamp = toISOString ts, source = machine_id (machine g),
          payload_value = num (max 0 (min 100 (round_real (loadPercent * 10) / 10))),
          payload_unit = Some ''percent'',
          quality = Some (if 95 < loadPercent then Q_uncertain else Q_good),
          metadata = Some [(''power_rating_kw'', num (spindle_power_kw (specs (machine g)))),
                           (''phase'', JStr (phase_str (phase (currentCycle g))))]\<rparr>)"

definition axis_labels :: "string list" where
  "axis_labels = [''x'', ''y'', ''z'', ''a'', ''b'', ''c'']"

text \<open>
  \<open>generateAxisPositionPayload\<close>.  An \<open>axis\<close> that is no label has index \<open>-1\<close>; the
  source then reads \<open>dimensions[-1]\<close>, which is \<open>undefined\<close>: \<open>NaN\<close> in the arithmetic
  and \<open>undefined\<close> in the metadata.
\<close>

definition generateAxisPositionPayload ::
  "env \<Rightarrow> string \<Rightarrow> int \<Rightarrow> CNCDataGenerator \<Rightarrow> MQTTPayload" where
  "generateAxisPositionPayload e axis ts g =
     (let dimensions = map (parseFloat e) (split_on CHR ''x'' (work_envelope (specs (machine g))));
          axisIndex = indexOf axis_labels (toLowerCase axis);
          maxPosition = (if axisIndex < int (length dimensions)
                         then (if axisIndex < 0 then NaN else dimensions ! nat axisIndex)
                         else Fin 100);
          position = (case phase (currentCycle g) of
                        P_machining \<Rightarrow>
                          js_add (js_div maxPosition (Fin 2))
                            (js_mul (Fin (sin (real_of_int (Date_now e (In_AxisPosition axis)) / 8000
                                               + real_of_int axisIndex)))
                                    (js_mul maxPosition (Fin 0.3)))
                      | P_loading \<Rightarrow>
                          (if axisIndex = 0 then js_mul maxPosition (Fin 0.1)
                           else js_mul maxPosition (Fin 0.5))
                      | P_unloading \<Rightarrow>
                          (if axisIndex = 0 then js_mul maxPosition (Fin 0.1)
                           else js_mul maxPosition (Fin 0.5))
                      | _ \<Rightarrow> Fin 0);
          position' = (if 3 \<le> axisIndex
                       then js_sub (js_mul (js_div position maxPosition) (Fin 360)) (Fin 180)
                       else position);
          max_travel = (if 3 \<le> axisIndex then num 360
                        else if axisIndex < 0 then JUndefined else JNum maxPosition)
      in \<lparr>timestamp = toISOString ts, source = machine_id (machine g),
          payload_value = JNum (js_div (Math_round (js_mul position' (Fin 100))) (Fin 100)),
          payload_unit = Some (if 3 \<le> axisIndex then ''degrees'' else ''mm''),
          quality = Some Q_good,
          metadata = Some [(''axis'', JStr (toUpperCase axis)),
                           (''max_travel'', max_travel),
                           (''phase'', JStr (phase_str (phase (currentCycle g))))]\<rparr>)"

definition generateFeedratePayload :: "env \<Rightarrow> int \<Rightarrow> CNCDataGenerator \<Rightarrow> MQTTPayload" where
  "generateFeedratePayload e ts g =
     (let rapid = rapid_traverse_mm_min (specs (machine g));
          feedrate = (case phase (currentCycle g) of
                        P_machining \<Rightarrow>
                          100 + Math_random e In_Feedrate * 1500
                              + sin (real_of_int (Date_now e In_Feedrate) / 12000) * 300
                      | P_loading \<Rightarrow> rapid * 0.1
                      | P_unloading \<Rightarrow> rapid * 0.1
                      | _ \<Rightarrow> 0)
      in \<lparr>timestamp = toISOString ts, source = machine_id (machine g),
          payload_value = num (max 0 (round_real feedrate)),
          payload_unit = Some ''mm/min'',
          quality = Some Q_good,
          metadata = Some [(''rapid_traverse'', num rapid),
                           (''phase'', JStr (phase_str (phase (currentCycle g))))]\<rparr>)"

definition generateVibrationPayload :: "env \<Rightarrow> int \<Rightarrow> CNCDataGenerator \<Rightarrow> MQTTPayload" where
  "generateVibrationPayload e ts g =
     (let vibration =
            vibrationBaseline g +
            (case phase (currentCycle g) of
               P_machining \<Rightarrow>
                 Math_random e In_Vibration * 2.0
                   + sin (real_of_int (Date_now e In_Vibration) / 3000) * 0.5
             | P_error \<Rightarrow> Math_random e In_Vibration * 5.0
             | _ \<Rightarrow> Math_random e In_Vibration * 0.2)
      in \<lparr>timestamp = toISOString ts, source = machine_id (machine g),
          payload_value = num (round_real (vibration * 100) / 100),
          payload_unit = Some ''mm/s'',
          quality = Some (if 5.0 < vibration then Q_bad
                          else if 3.0 < vibration then Q_uncertain else Q_good),
          metadata = Some [(''baseline'', num (vibrationBaseline g)),
                           (''threshold_warning'', num 3.0),
                           (''threshold_alarm'', num 5.0),
                           (''phase'', JStr (phase_str (phase (currentCycle g))))]\<rparr>)"

definition generateTemperaturePayload :: "env \<Rightarrow> int \<Rightarrow> CNCDataGenerator \<Rightarrow> MQTTPayload" where
  "generateTemperaturePayload e ts g =
     (let temperature =
            temperatureBaseline g +
            (case phase (currentCycle g) of
               P_machining \<Rightarrow> Math_random e In_Temperature * 20 + 10
             | P_error \<Rightarrow> Math_random e In_Temperature * 30
             | _ \<Rightarrow> Math_random e In_Temperature * 5)
      in \<lparr>timestamp = toISOString ts, source = machine_id (machine g),
          payload_value = num (round_real (temperature * 10) / 10),
          payload_unit = Some ''celsius'',
          quality = Some (if 90 < temperature then Q_bad
                          else if 75 < temperature then Q_uncertain else Q_good),
          metadata = Some [(''baseline'', num (temperatureBaseline g)),
                           (''threshold_warning'', num 75),
                           (''threshold_alarm'', num 90),
                           (''phase'', JStr (phase_str (phase (currentCycle g))))]\<rparr>)"

text \<open>
  \<open>this.toolWearFactors.get(toolNumber) || 0\<close>: a key that is no integer is not in the
  map, and a missing entry (or a wear of 0) gives 0.
\<close>

definition wear_of :: "(int \<rightharpoonup> real) \<Rightarrow> jsnum \<Rightarrow> real" where
  "wear_of w n =
     (case n of
        Fin x \<Rightarrow> (if x = of_int \<lfloor>x\<rfloor> then (case w \<lfloor>x\<rfloor> of Some v \<Rightarrow> v | None \<Rightarrow> 0) else 0)
      | _ \<Rightarrow> 0)"

text \<open>The tool number of \<open>generateCurrentToolPayload\<close>, with the value \<open>now\<close> of its \<open>Date.now()\<close>.\<close>

definition toolNumber :: "int \<Rightarrow> CNCDataGenerator \<Rightarrow> jsnum" where
  "toolNumber now g =
     (if phase (currentCycle g) = P_machining then
        (let cycleProgress =
               js_div (Fin (real_of_int (now - startTime (currentCycle g))))
                      (js_mul (duration (currentCycle g)) (Fin 1000))
         in js_add (Math_floor (js_mul cycleProgress (Fin 5))) (Fin 1))
      else Fin 1)"

definition generateCurrentToolPayload :: "env \<Rightarrow> int \<Rightarrow> CNCDataGenerator \<Rightarrow> MQTTPayload" where
  "generateCurrentToolPayload e ts g =
     (let n = toolNumber (Date_now e In_CurrentTool) g;
          toolWear = wear_of (toolWearFactors g) n
      in \<lparr>timestamp = toISOString ts, source = machine_id (machine g),
          payload_value = JNum n,
          payload_unit = Some ''tool_number'',
          quality = Some (if 0.8 < toolWear then Q_uncertain else Q_good),
          metadata = Some [(''tool_wear_percent'', num (round_real (toolWear * 100))),
                           (''tool_life_remaining'', num (round_real ((1 - toolWear) * 100))),
                           (''phase'', JStr (phase_str (phase (currentCycle g))))]\<rparr>)"

definition generateCoolantPressurePayload :: "env \<Rightarrow> int \<Rightarrow> CNCDataGenerator \<Rightarrow> MQTTPayload" where
  "generateCoolantPressurePayload e ts g =
     (let pressure =
            (case phase (currentCycle g) of
               P_machining \<Rightarrow>
                 3.5 + Math_random e In_CoolantPressure * 1.0
                     + sin (real_of_int (Date_now e In_CoolantPressure) / 5000) * 0.2
             | P_loading \<Rightarrow> 2.0 + Math_random e In_CoolantPressure * 0.5
             | P_unloading \<Rightarrow> 2.0 + Math_random e In_CoolantPressure * 0.5
             | _ \<Rightarrow> 0.5 + Math_random e In_CoolantPressure * 0.3)
      in \<lparr>timestamp = toISOString ts, source = machine_id (machine g),
          payload_value = num (round_real (pressure * 10) / 10),
          payload_unit = Some ''bar'',
          quality = Some (if pressure < 2.0 \<and> phase (currentCycle g) = P_machining
                          then Q_bad else Q_good),
          metadata = Some [(''min_operating_pressure'', num 2.0),
                           (''nominal_pressure'', num 4.0),
                           (''phase'', JStr (phase_str (phase (currentCycle g))))]\<rparr>)"

definition generateCoolantFlowPayload :: "env \<Rightarrow> int \<Rightarrow> CNCDataGenerator \<Rightarrow> MQTTPayload" where
  "generateCoolantFlowPayload e ts g =
     (let flowRate =
            (case phase (currentCycle g) of
               P_machining \<Rightarrow>
                 15 + Math_random e In_CoolantFlow * 10
                    + sin (real_of_int (Date_now e In_CoolantFlow) / 7000) * 3
             | P_loading \<Rightarrow> 5 + Math_random e In_CoolantFlow * 3
             | P_unloading \<Rightarrow> 5 + Math_random e In_CoolantFlow * 3
             | _ \<Rightarrow> 1 + Math_random e In_CoolantFlow * 2)
      in \<lparr>timestamp = toISOString ts, source = machine_id (machine g),
          payload_value = num (round_real (flowRate * 10) / 10),
          payload_unit = Some ''L/min'',
          quality = Some Q_good,
          metadata = Some [(''nominal_flow'', num 20),
                           (''phase'', JStr (phase_str (phase (currentCycle g))))]\<rparr>)"

definition generateOperationalStatusPayload :: "env \<Rightarrow> int \<Rightarrow> CNCDataGenerator \<Rightarrow> MQTTPayload" where
  "generateOperationalStatusPayload e ts g =
     (let status = operational_status (machine g);
          detailedStatus =
            (if status = S_operational then
               (case phase (currentCycle g) of
                  P_machining \<Rightarrow> S_running
                | P_loading \<Rightarrow> S_setup
                | P_unloading \<Rightarrow> S_setup
                | P_idle \<Rightarrow> S_idle
                | P_error \<Rightarrow> S_error
                | P_maintenance \<Rightarrow> S_maintenance)
             else status)
      in \<lparr>timestamp = toISOString ts, source = machine_id (machine g),
          payload_value = JStr (status_str detailedStatus),
          payload_unit = Some ''status'',
          quality = Some Q_good,
          metadata = Some [(''base_status'', JStr (status_str status)),
                           (''cycle_phase'', JStr (phase_str (phase (currentCycle g)))),
                           (''uptime_hours'',
                            num (round_real (real_of_int (Date_now e In_OperationalStatus
                                                         - cycleStartTime g) / 3600000)))]\<rparr>)"

definition generateCyclePhasePayload :: "env \<Rightarrow> int \<Rightarrow> CNCDataGenerator \<Rightarrow> MQTTPayload" where
  "generateCyclePhasePayload e ts g =
     (let d = duration (currentCycle g);
          elapsedSeconds =
            round_real (real_of_int (Date_now e In_CyclePhase - startTime (currentCycle g)) / 1000);
          remainingSeconds = Math_max (Fin 0) (Math_round (js_sub d (Fin elapsedSeconds)))
      in \<lparr>timestamp = toISOString ts, source = machine_id (machine g),
          payload_value = JStr (phase_str (phase (currentCycle g))),
          payload_unit = Some ''phase'',
          quality = Some Q_good,
          metadata = Some [(''elapsed_seconds'', num elapsedSeconds),
                           (''remaining_seconds'', JNum remainingSeconds),
                           (''total_duration'', JNum (Math_round d)),
                           (''progress_percent'',
                            JNum (Math_round (js_mul (js_div (Fin elapsedSeconds) d) (Fin 100))))]\<rparr>)"

definition generatePartsCountPayload :: "env \<Rightarrow> int \<Rightarrow> CNCDataGenerator \<Rightarrow> MQTTPayload" where
  "generatePartsCountPayload e ts g =
     (let parts = real_of_int (totalPartsProduced g);
          hours = real_of_int (Date_now e In_PartsCount - cycleStartTime g) / 3600000
      in \<lparr>timestamp = toISOString ts, source = machine_id (machine g),
          payload_value = num parts,
          payload_unit = Some ''parts'',
          quality = Some Q_good,
          metadata = Some [(''shift_start'', JStr (toISOString (cycleStartTime g))),
                           (''parts_per_hour'',
                            JNum (js_div (Math_round (js_mul (js_div (Fin parts) (Fin hours)) (Fin 10)))
                                         (Fin 10)))]\<rparr>)"

definition generateEfficiencyPayload :: "env \<Rightarrow> int \<Rightarrow> CNCDataGenerator \<Rightarrow> MQTTPayload" where
  "generateEfficiencyPayload e ts g =
     (let totalRuntime = real_of_int (Date_now e In_Efficiency - cycleStartTime g) / 1000;
          machiningTime =
            (if phase (currentCycle g) = P_machining
             then real_of_int (Date_now e In_Efficiency_machining - startTime (currentCycle g)) / 1000
             else 0)
            + real_of_int (totalPartsProduced g) * 1200;
          efficiency =
            Math_min (Fin 100) (js_mul (js_div (Fin machiningTime) (Fin totalRuntime)) (Fin 100))
      in \<lparr>timestamp = toISOString ts, source = machine_id (machine g),
          payload_value = JNum (js_div (Math_round (js_mul efficiency (Fin 10))) (Fin 10)),
          payload_unit = Some ''percent'',
          quality = Some Q_good,
          metadata = Some [(''machining_time_seconds'', num (round_real machiningTime)),
                           (''total_runtime_seconds'', num (round_real totalRuntime)),
                           (''target_efficiency'', num 75),
                           (''current_phase'', JStr (phase_str (phase (currentCycle g))))]\<rparr>)"

text \<open>
  \<open>generateSensorReadings\<close> returns the readings and, as the second component, the
  generator after the call: the cycle may have advanced and \<open>lastUpdate\<close> is set.
\<close>

definition is_umh_format :: "string \<Rightarrow> bool" where
  "is_umh_format f = (f = ''umh'' \<or> f = ''umh-core'')"

definition generateSensorReadings :: "env \<Rightarrow> CNCDataGenerator \<Rightarrow> SensorReading list \<times> CNCDataGenerator" where
  "generateSensorReadings e g0 =
     (let g = updateCycle (Date_now e In_updateCycle) (Date_now e In_advanceCyclePhase)
                (Math_random e In_advanceCyclePhase_branch) (Math_random e In_advanceCyclePhase) g0;
          now = Date_now e In_generateSensorReadings;
          m = machine g;
          outputFormat = env_or (OUTPUT_FORMAT e) ''uns'';
          baseTopicPath =
            (if is_umh_format outputFormat
             then ''umh/v1/'' @ enterprise m @ ''/'' @ site m @ ''/'' @ area m @ ''/'' @ work_cell m
                    @ ''/'' @ machine_id m @ ''/_raw''
             else enterprise m @ ''/'' @ site m @ ''/'' @ area m @ ''/'' @ work_cell m
                    @ ''/'' @ machine_id m);
          sensorPrefix = (if is_umh_format outputFormat then [] else ''/info/sensors'');
          axisLabels = slice0 axis_labels (axes (caps m));
          statusPrefix = (if is_umh_format outputFormat then [] else ''/info/status'');
          prodPrefix = (if is_umh_format outputFormat then [] else ''/info/production'')
      in ([\<lparr>topicPath = baseTopicPath @ sensorPrefix @ ''/spindle-speed'',
             payload = generateSpindleSpeedPayload e now g\<rparr>,
           \<lparr>topicPath = baseTopicPath @ sensorPrefix @ ''/spindle-load'',
             payload = generateSpindleLoadPayload e now g\<rparr>]
          @ map (\<lambda>axis. \<lparr>topicPath = baseTopicPath @ sensorPrefix @ ''/position-'' @ axis,
                          payload = generateAxisPositionPayload e axis now g\<rparr>) axisLabels
          @ [\<lparr>topicPath = baseTopicPath @ sensorPrefix @ ''/feedrate'',
               payload = generateFeedratePayload e now g\<rparr>,
             \<lparr>topicPath = baseTopicPath @ sensorPrefix @ ''/vibration'',
               payload = generateVibrationPayload e now g\<rparr>,
             \<lparr>topicPath = baseTopicPath @ sensorPrefix @ ''/temperature'',
               payload = generateTemperaturePayload e now g\<rparr>,
             \<lparr>topicPath = baseTopicPath @ sensorPrefix @ ''/current-tool'',
               payload = generateCurrentToolPayload e now g\<rparr>]
          @ (if coolant_system (caps m)
             then [\<lparr>topicPath = baseTopicPath @ sensorPrefix @ ''/coolant-pressure'',
                     payload = generateCoolantPressurePayload e now g\<rparr>,
                   \<lparr>topicPath = baseTopicPath @ sensorPrefix @ ''/coolant-flow'',
                     payload = generateCoolantFlowPayload e now g\<rparr>]
             else [])
          @ [\<lparr>topicPath = baseTopicPath @ statusPrefix @ ''/operational'',
               payload = generateOperationalStatusPayload e now g\<rparr>,
             \<lparr>topicPath = baseTopicPath @ statusPrefix @ ''/cycle-phase'',
               payload = generateCyclePhasePayload e now g\<rparr>,
             \<lparr>topicPath = baseTopicPath @ prodPrefix @ ''/parts-count'',
               payload = generatePartsCountPayload e now g\<rparr>,
             \<lparr>topicPath = baseTopicPath @ prodPrefix @ ''/efficiency'',
               payload = generateEfficiencyPayload e now g\<rparr>],
          g\<lparr>lastUpdate := now\<rparr>))"

section \<open>The factory of generators\<close>

text \<open>
  A JavaScript \<open>Map\<close> keeps its entries in insertion order; \<open>set\<close> replaces the value of
  a key that is present and appends otherwise, and \<open>size\<close> is the number of entries.
\<close>

fun Map_set :: "'k \<Rightarrow> 'v \<Rightarrow> ('k \<times> 'v) list \<Rightarrow> ('k \<times> 'v) list" where
  "Map_set k v [] = [(k, v)]"
| "Map_set k v ((k', v') # kvs) = (if k' = k then (k, v) # kvs else (k', v') # Map_set k v kvs)"

type_synonym generators = "(string \<times> CNCDataGenerator) list"

text \<open>
  The constructor of \<open>CNCDataGeneratorFactory\<close>; \<open>envs mid\<close> is the environment of the
  calls made for the machine \<open>mid\<close>, and \<open>roster\<close> is \<open>CNC_MACHINES\<close>.
\<close>

definition new_CNCDataGeneratorFactory :: "(string \<Rightarrow> env) \<Rightarrow> CNCMachineConfig list \<Rightarrow> generators" where
  "new_CNCDataGeneratorFactory envs roster =
     fold (\<lambda>m gs. Map_set (machine_id m) (new_CNCDataGenerator (envs (machine_id m)) m) gs) roster []"

text \<open>
  \<open>generateAllReadings\<close> and \<open>generateOperationalReadings\<close> walk the generators in order;
  \<open>acc\<close> is the map of readings built so far.  They return it with the generators after
  the calls.
\<close>

fun generateAllReadings_loop ::
  "(string \<Rightarrow> env) \<Rightarrow> generators \<Rightarrow> (string \<times> SensorReading list) list
   \<Rightarrow> (string \<times> SensorReading list) list \<times> generators" where
  "generateAllReadings_loop envs [] acc = (acc, [])"
| "generateAllReadings_loop envs ((machineId, generator) # rest) acc =
     (case generateSensorReadings (envs machineId) generator of (rs, generator') \<Rightarrow>
      (case generateAllReadings_loop envs rest (Map_set machineId rs acc) of (acc', rest') \<Rightarrow>
         (acc', (machineId, generator') # rest')))"

definition generateAllReadings ::
  "(string \<Rightarrow> env) \<Rightarrow> generators \<Rightarrow> (string \<times> SensorReading list) list \<times> generators" where
  "generateAllReadings envs gs = generateAllReadings_loop envs gs []"

definition is_operational :: "CNCMachineConfig list \<Rightarrow> string \<Rightarrow> bool" where
  "is_operational roster machineId =
     (case find (\<lambda>m. machine_id m = machineId) roster of
        None \<Rightarrow> False
      | Some m \<Rightarrow> operational_status m \<noteq> S_offline)"

fun generateOperationalReadings_loop ::
  "(string \<Rightarrow> env) \<Rightarrow> CNCMachineConfig list \<Rightarrow> generators \<Rightarrow> (string \<times> SensorReading list) list
   \<Rightarrow> (string \<times> SensorReading list) list \<times> generators" where
  "generateOperationalReadings_loop envs roster [] acc = (acc, [])"
| "generateOperationalReadings_loop envs roster ((machineId, generator) # rest) acc =
     (if is_operational roster machineId then
        (case generateSensorReadings (envs machineId) generator of (rs, generator') \<Rightarrow>
         (case generateOperationalReadings_loop envs roster rest (Map_set machineId rs acc) of
            (acc', rest') \<Rightarrow> (acc', (machineId, generator') # rest')))
      else
        (case generateOperationalReadings_loop envs roster rest acc of
           (acc', rest') \<Rightarrow> (acc', (machineId, generator) # rest')))"

definition generateOperationalReadings ::
  "(string \<Rightarrow> env) \<Rightarrow> CNCMachineConfig list \<Rightarrow> generators
   \<Rightarrow> (string \<times> SensorReading list) list \<times> generators" where
  "generateOperationalReadings envs roster gs = generateOperationalReadings_loop envs roster gs []"

section \<open>The UMH adapter (umh-adapter.ts, umh-types.ts)\<close>

record UMHPayload =
  umh_value :: jsval
  timestamp_ms :: jsval

record UMHMetadata =
  location_path :: string
  data_contract :: string
  tag_name :: string
  umh_unit :: "string option"
  umh_quality :: "quality option"
  umh_source :: string
  original_metadata :: "(string \<times> jsval) list option"

text \<open>
  The validation tests whether the payload and the metadata are there at all, so a
  message may lack them (\<open>None\<close>).
\<close>

record UMHMessage =
  umh_payload :: "UMHPayload option"
  umh_metadata :: "UMHMetadata option"
  topic :: string

record SensorReadingWithMachine = SensorReading +
  reading_machine :: CNCMachineConfig
  sensorType :: string

definition buildUMHTopic ::
  "string \<Rightarrow> string \<Rightarrow> string \<Rightarrow> string \<Rightarrow> string \<Rightarrow> string \<Rightarrow> string \<Rightarrow> string" where
  "buildUMHTopic ent st ar wc mach contract tag =
     ''umh.v1.'' @ ent @ ''.'' @ st @ ''.'' @ ar @ ''.'' @ wc @ ''.'' @ mach @ ''.'' @ contract
       @ ''.'' @ tag"

definition buildLocationPath :: "string \<Rightarrow> string \<Rightarrow> string \<Rightarrow> string \<Rightarrow> string \<Rightarrow> string" where
  "buildLocationPath ent st ar wc mach = ent @ ''.'' @ st @ ''.'' @ ar @ ''.'' @ wc @ ''.'' @ mach"

definition UMH_DATA_CONTRACTS_RAW :: string where
  "UMH_DATA_CONTRACTS_RAW = ''_raw''"

text \<open>
  \<open>new Date(s).getTime()\<close> is the time value of the date, an integer number of
  milliseconds, or \<open>NaN\<close> when \<open>s\<close> is no date.  \<open>Date_parse\<close> is the runtime's parser
  (\<open>None\<close> for an invalid date).
\<close>

definition getTime :: "int option \<Rightarrow> jsnum" where
  "getTime d = (case d of None \<Rightarrow> NaN | Some t \<Rightarrow> Fin (real_of_int t))"

definition convertToUMHMessage :: "(string \<Rightarrow> int option) \<Rightarrow> SensorReadingWithMachine \<Rightarrow> UMHMessage" where
  "convertToUMHMessage Date_parse reading =
     (let p = payload reading;
          m = reading_machine reading;
          ts_ms = getTime (Date_parse (timestamp p));
          umhPayload = \<lparr>umh_value = payload_value p, timestamp_ms = JNum ts_ms\<rparr>;
          loc = buildLocationPath (enterprise m) (site m) (area m) (work_cell m) (machine_id m);
          tag = replace_hyphens (sensorType reading);
          umhMetadata = \<lparr>location_path = loc, data_contract = UMH_DATA_CONTRACTS_RAW,
                         tag_name = tag, umh_unit = payload_unit p, umh_quality = quality p,
                         umh_source = source p, original_metadata = metadata p\<rparr>
      in \<lparr>umh_payload = Some umhPayload, umh_metadata = Some umhMetadata,
          topic = buildUMHTopic (enterprise m) (site m) (area m) (work_cell m) (machine_id m)
                    UMH_DATA_CONTRACTS_RAW tag\<rparr>)"

definition convertMultipleReadings ::
  "(string \<Rightarrow> int option) \<Rightarrow> SensorReadingWithMachine list \<Rightarrow> UMHMessage list" where
  "convertMultipleReadings Date_parse readings = map (convertToUMHMessage Date_parse) readings"

definition extractSensorType :: "string \<Rightarrow> string" where
  "extractSensorType tp = last (split_on CHR ''/'' tp)"

record validation =
  valid :: bool
  errors :: "string list"

definition validateUMHMessage :: "UMHMessage \<Rightarrow> validation" where
  "validateUMHMessage message =
     (let payload_errors =
            (case umh_payload message of
               None \<Rightarrow> [''Missing payload'']
             | Some p \<Rightarrow>
                 (if umh_value p = JUndefined \<or> umh_value p = JNull
                  then [''Payload missing value''] else [])
                 @ (if \<not> truthy (timestamp_ms p) \<or> \<not> is_number (timestamp_ms p)
                    then [''Payload missing or invalid timestamp_ms''] else []));
          metadata_errors =
            (case umh_metadata message of
               None \<Rightarrow> [''Missing metadata'']
             | Some md \<Rightarrow>
                 (if location_path md = [] then [''Metadata missing location_path''] else [])
                 @ (if data_contract md = [] then [''Metadata missing data_contract''] else [])
                 @ (if tag_name md = [] then [''Metadata missing tag_name''] else []));
          topic_errors =
            (if topic message = [] then [''Missing topic'']
             else if \<not> startsWith (topic message) ''umh.v1.''
             then [''Topic does not start with umh.v1.''] else []);
          errs = payload_errors @ metadata_errors @ topic_errors
      in \<lparr>valid = (errs = []), errors = errs\<rparr>)"

section \<open>The UMH-Core client (mqtt-client.ts)\<close>

record UMHClientOptions =
  opt_umhCoreUrl :: string
  opt_timeout :: "int option"
  opt_retries :: "int option"

record UMHClient =
  client_umhCoreUrl :: string
  timeout :: int
  retries :: int

text \<open>\<open>options.timeout || 5000\<close> and \<open>options.retries || 3\<close>: a missing or zero option gives the default.\<close>

definition int_or :: "int option \<Rightarrow> int \<Rightarrow> int" where
  "int_or v d = (case v of None \<Rightarrow> d | Some i \<Rightarrow> if i = 0 then d else i)"

definition new_UMHClient :: "UMHClientOptions \<Rightarrow> UMHClient" where
  "new_UMHClient options =
     \<lparr>client_umhCoreUrl = opt_umhCoreUrl options,
      timeout = int_or (opt_timeout options) 5000,
      retries = int_or (opt_retries options) 3\<rparr>"

text \<open>
  The HTTP client is the outside world.  A request is answered (\<open>None\<close>) or fails with an
  error that has a message (\<open>Some msg\<close>); the answer to the \<open>k\<close>-th request of a run is
  \<open>http k request\<close>.  A run records what it did: the requests in order, each with its
  outcome, and the waits of the \<open>setTimeout\<close> between the attempts, in milliseconds.
\<close>

datatype request = Get string | Post_data UMHMessage | Post_batch "UMHMessage list"

datatype event = Delivered request | Rejected request string | Waited nat

type_synonym http = "nat \<Rightarrow> request \<Rightarrow> string option"

record net =
  calls :: nat
  trace :: "event list"

definition send :: "http \<Rightarrow> request \<Rightarrow> net \<Rightarrow> string option \<times> net" where
  "send h rq n =
     (case h (calls n) rq of
        None \<Rightarrow> (None, \<lparr>calls = calls n + 1, trace = trace n @ [Delivered rq]\<rparr>)
      | Some msg \<Rightarrow> (Some msg, \<lparr>calls = calls n + 1, trace = trace n @ [Rejected rq msg]\<rparr>))"

definition wait :: "nat \<Rightarrow> net \<Rightarrow> net" where
  "wait ms n = n\<lparr>trace := trace n @ [Waited ms]\<rparr>"

text \<open>The delay before the attempt that follows attempt number \<open>attempt\<close>.\<close>

definition backoff_delay :: "int \<Rightarrow> nat" where
  "backoff_delay attempt = min (1000 * 2 ^ nat (attempt - 1)) 5000"

text \<open>
  \<open>publish\<close>: the loop \<open>for (attempt = 1; attempt <= this.retries; attempt++)\<close>.  The result
  is \<open>Inr ()\<close> when an attempt succeeds and \<open>Inl msg\<close> when the call throws, \<open>msg\<close> being
  the message of the error thrown: \<open>failure_message\<close> is the template literal of the
  \<open>throw\<close>, where a \<open>lastError\<close> that was never set prints as \<open>undefined\<close>.
\<close>

definition failure_message :: "int \<Rightarrow> string option \<Rightarrow> string" where
  "failure_message n lastError =
     ''Failed to publish to UMH-Core after '' @ string_of_int n @ '' attempts: ''
       @ (case lastError of None \<Rightarrow> ''undefined'' | Some msg \<Rightarrow> msg)"

function publish_loop ::
  "http \<Rightarrow> UMHClient \<Rightarrow> UMHMessage \<Rightarrow> int \<Rightarrow> string option \<Rightarrow> net \<Rightarrow> (string + unit) \<times> net" where
  "publish_loop h c message attempt lastError n =
     (if attempt \<le> retries c then
        (case send h (Post_data message) n of
           (None, n') \<Rightarrow> (Inr (), n')
         | (Some msg, n') \<Rightarrow>
             publish_loop h c message (attempt + 1) (Some msg)
               (if attempt < retries c then wait (backoff_delay attempt) n' else n'))
      else (Inl (failure_message (retries c) lastError), n))"
  by pat_completeness auto
termination
  by (relation "measure (\<lambda>(h, c, message, attempt, lastError, n). nat (retries c + 1 - attempt))") auto

definition publish :: "http \<Rightarrow> UMHClient \<Rightarrow> UMHMessage \<Rightarrow> net \<Rightarrow> (string + unit) \<times> net" where
  "publish h c message n = publish_loop h c message 1 None n"

text \<open>\<open>publishBatch\<close>: one request, no retry; the error of the request is thrown again.\<close>

definition publishBatch :: "http \<Rightarrow> UMHClient \<Rightarrow> UMHMessage list \<Rightarrow> net \<Rightarrow> (string + unit) \<times> net" where
  "publishBatch h c messages n =
     (case send h (Post_batch messages) n of
        (None, n') \<Rightarrow> (Inr (), n')
      | (Some msg, n') \<Rightarrow> (Inl msg, n'))"

text \<open>\<open>connect\<close>: the health check, then the root endpoint when the health check fails.\<close>

definition connect :: "http \<Rightarrow> UMHClient \<Rightarrow> net \<Rightarrow> (string + unit) \<times> net" where
  "connect h c n =
     (case send h (Get ''/health'') n of
        (None, n') \<Rightarrow> (Inr (), n')
      | (Some _, n') \<Rightarrow>
          (case send h (Get ''/'') n' of
             (None, n'') \<Rightarrow> (Inr (), n'')
           | (Some msg, n'') \<Rightarrow> (Inl (''UMH-Core connection failed: '' @ msg), n'')))"

section \<open>Metrics (both simulation services)\<close>

record SimulationMetrics =
  totalMessagesPublished :: int
  messagesPerSecond :: real
  activeMachines :: nat
  uptime :: real
  error_list :: "string list"

record UMHSimulationMetrics = SimulationMetrics +
  batchesSent :: int

text \<open>\<open>addError\<close> keeps the last ten errors.\<close>

definition addError :: "string \<Rightarrow> 'a SimulationMetrics_scheme \<Rightarrow> 'a SimulationMetrics_scheme" where
  "addError err mt =
     (let es = error_list mt @ [err] in
      mt\<lparr>error_list := (if 10 < length es then drop (length es - 10) es else es)\<rparr>)"

text \<open>\<open>updateMetrics\<close>, with the value \<open>now\<close> of its \<open>Date.now()\<close>.\<close>

definition updateMetrics :: "int \<Rightarrow> int \<Rightarrow> 'a SimulationMetrics_scheme \<Rightarrow> 'a SimulationMetrics_scheme" where
  "updateMetrics now start mt =
     (let uptimeSeconds = real_of_int (now - start) / 1000 in
      mt\<lparr>uptime := round_real uptimeSeconds,
         messagesPerSecond :=
           (if 0 < uptimeSeconds
            then round_real (real_of_int (totalMessagesPublished mt) / uptimeSeconds * 100) / 100
            else 0)\<rparr>)"

section \<open>The simulation services\<close>

text \<open>
  The two services keep the same private fields but for the client and the types of
  the configuration and of the metrics; \<open>publishTimer\<close> says whether the interval timer
  is set, and \<open>service_startTime\<close> is the field \<open>startTime\<close> of the service.
\<close>

record ('c, 'm) service =
  dataFactory :: generators
  publishTimer :: bool
  config :: 'c
  isRunning :: bool
  service_startTime :: int
  metrics :: 'm

subsection \<open>UMHSimulationManager (umh-simulation-service.ts of the direct integration)\<close>

record UMHSimulationConfig =
  umhCoreUrl :: string
  publishInterval :: int
  enableLogging :: "bool option"
  batchSize :: "int option"

record UMHSimulationManager = "(UMHSimulationConfig, UMHSimulationMetrics) service" +
  umhClient :: "UMHClient option"

text \<open>
  The messages of a tick: every reading of every machine is converted and validated, and
  a message that fails the validation is logged and left out.
\<close>

definition with_machine :: "CNCMachineConfig \<Rightarrow> SensorReading \<Rightarrow> SensorReadingWithMachine" where
  "with_machine m reading =
     \<lparr>topicPath = topicPath reading, payload = payload reading, reading_machine = m,
      sensorType = extractSensorType (topicPath reading)\<rparr>"

definition validated_message ::
  "(string \<Rightarrow> int option) \<Rightarrow> CNCMachineConfig \<Rightarrow> SensorReading \<Rightarrow> UMHMessage list" where
  "validated_message Date_parse m reading =
     (let umhMessage = convertToUMHMessage Date_parse (with_machine m reading) in
      if \<not> valid (validateUMHMessage umhMessage) then [] else [umhMessage])"

definition collectUMHMessages ::
  "(string \<Rightarrow> int option) \<Rightarrow> CNCMachineConfig list \<Rightarrow> (string \<times> SensorReading list) list
   \<Rightarrow> UMHMessage list" where
  "collectUMHMessages Date_parse roster allReadings =
     concat (map (\<lambda>(machineId, readings).
                    (case find (\<lambda>m. machine_id m = machineId) roster of
                       None \<Rightarrow> []
                     | Some m \<Rightarrow> concat (map (validated_message Date_parse m) readings)))
                 allReadings)"

text \<open>
  The two ways of sending.  Each returns the error that ended the loop, if one did, with
  the metrics as the loop left them.
\<close>

fun publish_each ::
  "http \<Rightarrow> UMHClient \<Rightarrow> UMHMessage list \<Rightarrow> UMHSimulationMetrics \<Rightarrow> net
   \<Rightarrow> string option \<times> UMHSimulationMetrics \<times> net" where
  "publish_each h c [] mt n = (None, mt, n)"
| "publish_each h c (message # rest) mt n =
     (case publish h c message n of
        (Inl err, n') \<Rightarrow> (Some err, mt, n')
      | (Inr _, n') \<Rightarrow>
          publish_each h c rest (mt\<lparr>totalMessagesPublished := totalMessagesPublished mt + 1\<rparr>) n')"

text \<open>
  \<open>for (i = 0; i < umhMessages.length; i += batchSize)\<close>; the caller enters the loop
  only with a \<open>batchSize\<close> above 1.
\<close>

function publish_batches ::
  "http \<Rightarrow> UMHClient \<Rightarrow> nat \<Rightarrow> UMHMessage list \<Rightarrow> nat \<Rightarrow> UMHSimulationMetrics \<Rightarrow> net
   \<Rightarrow> string option \<times> UMHSimulationMetrics \<times> net" where
  "publish_batches h c b messages i mt n =
     (if i < length messages \<and> 0 < b then
        (let batch = take b (drop i messages) in
         case publishBatch h c batch n of
           (Inl err, n') \<Rightarrow> (Some err, mt, n')
         | (Inr _, n') \<Rightarrow>
             publish_batches h c b messages (i + b)
               (mt\<lparr>batchesSent := batchesSent mt + 1,
                   totalMessagesPublished := totalMessagesPublished mt + int (length batch)\<rparr>) n')
      else (None, mt, n))"
  by pat_completeness auto
termination
  by (relation "measure (\<lambda>(h, c, b, messages, i, mt, n). length messages - i)") auto

text \<open>
  \<open>publishSensorData\<close>: one tick.  \<open>envs\<close> gives the environment of each machine's
  generator, \<open>now\<close> is the clock reading of \<open>updateMetrics\<close>, \<open>roster\<close> is
  \<open>CNC_MACHINES\<close>.  An error thrown by a send leaves the \<open>try\<close> block: the \<open>catch\<close> adds it
  to the errors of the metrics.
\<close>

definition UMHSimulationManager_publishSensorData ::
  "(string \<Rightarrow> env) \<Rightarrow> (string \<Rightarrow> int option) \<Rightarrow> int \<Rightarrow> http \<Rightarrow> CNCMachineConfig list
   \<Rightarrow> UMHSimulationManager \<Rightarrow> net \<Rightarrow> UMHSimulationManager \<times> net" where
  "UMHSimulationManager_publishSensorData envs Date_parse now h roster mgr n =
     (case umhClient mgr of
        None \<Rightarrow> (mgr, n)
      | Some c \<Rightarrow>
          if \<not> isRunning mgr then (mgr, n)
          else
            (case generateOperationalReadings envs roster (dataFactory mgr) of
               (allReadings, gens) \<Rightarrow>
                 (let umhMessages = collectUMHMessages Date_parse roster allReadings;
                      b = int_or (batchSize (config mgr)) 1;
                      sent =
                        (if umhMessages = [] then (None, metrics mgr, n)
                         else if 1 < b \<and> b < int (length umhMessages)
                         then publish_batches h c (nat b) umhMessages 0 (metrics mgr) n
                         else publish_each h c umhMessages (metrics mgr) n)
                  in case sent of
                       (None, mt, n') \<Rightarrow>
                         (mgr\<lparr>dataFactory := gens,
                              metrics := updateMetrics now (service_startTime mgr)
                                           (mt\<lparr>activeMachines := length allReadings\<rparr>)\<rparr>, n')
                     | (Some err, mt, n') \<Rightarrow>
                         (mgr\<lparr>dataFactory := gens,
                              metrics := addError (''UMH publishing error: '' @ err) mt\<rparr>, n'))))"

text \<open>
  \<open>start\<close> (with \<open>connectUMH\<close>, \<open>startPublishing\<close> and \<open>cleanup\<close>) and \<open>stop\<close>; \<open>now\<close> is the
  value of \<open>new Date()\<close>.
\<close>

definition UMHSimulationManager_start ::
  "http \<Rightarrow> int \<Rightarrow> UMHSimulationManager \<Rightarrow> net \<Rightarrow> (string + unit) \<times> UMHSimulationManager \<times> net" where
  "UMHSimulationManager_start h now mgr n =
     (if isRunning mgr then (Inl ''UMH simulation is already running'', mgr, n)
      else
        (let c = new_UMHClient \<lparr>opt_umhCoreUrl = umhCoreUrl (config mgr), opt_timeout = Some 10000,
                                opt_retries = Some 3\<rparr>
         in case connect h c n of
              (Inr _, n') \<Rightarrow>
                (Inr (), mgr\<lparr>umhClient := Some c, publishTimer := True, isRunning := True,
                            service_startTime := now\<rparr>, n')
            | (Inl err, n') \<Rightarrow>
                (Inl err,
                 mgr\<lparr>umhClient := Some c, publishTimer := False, isRunning := False,
                     metrics := addError (''UMH-Core connection error: '' @ err) (metrics mgr)\<rparr>,
                 n')))"

definition UMHSimulationManager_stop :: "UMHSimulationManager \<Rightarrow> UMHSimulationManager" where
  "UMHSimulationManager_stop mgr =
     (if \<not> isRunning mgr then mgr else mgr\<lparr>isRunning := False, publishTimer := False\<rparr>)"

subsection \<open>SimulationManager (simulation-service.ts, over MQTT)\<close>

record SimulationConfig =
  mqttBrokerUrl :: string
  mqtt_publishInterval :: int
  mqtt_enableLogging :: "bool option"
  outputFormat :: "string option"

text \<open>\<open>mqttClient\<close> says whether the service holds a client.\<close>

record SimulationManager = "(SimulationConfig, SimulationMetrics) service" +
  mqttClient :: bool

text \<open>
  What the tick hands to \<open>mqttClient.publish\<close>: a topic and the payload that is turned
  into JSON.  The library reports the outcome of a publication later, through the
  callback; \<open>publishMessage_callback\<close> is that callback.
\<close>

datatype body = UNS_body MQTTPayload | UMH_body "UMHPayload option"

definition publishMessage_callback ::
  "string \<Rightarrow> string option \<Rightarrow> SimulationMetrics \<Rightarrow> SimulationMetrics" where
  "publishMessage_callback tp err mt =
     (case err of
        Some msg \<Rightarrow> addError (''Publish error for '' @ tp @ '': '' @ msg) mt
      | None \<Rightarrow> mt\<lparr>totalMessagesPublished := totalMessagesPublished mt + 1\<rparr>)"

definition publications_of_reading ::
  "string \<Rightarrow> (string \<Rightarrow> int option) \<Rightarrow> CNCMachineConfig \<Rightarrow> SensorReading \<Rightarrow> (string \<times> body) list" where
  "publications_of_reading fmt Date_parse m reading =
     (if fmt = ''uns'' \<or> fmt = ''both'' then [(topicPath reading, UNS_body (payload reading))] else [])
     @ (if fmt = ''umh'' \<or> fmt = ''both'' then
          (let umhMessage = convertToUMHMessage Date_parse (with_machine m reading) in
           if \<not> valid (validateUMHMessage umhMessage) then []
           else [(topic umhMessage, UMH_body (umh_payload umhMessage))])
        else [])"

definition SimulationManager_publishSensorData ::
  "(string \<Rightarrow> env) \<Rightarrow> (string \<Rightarrow> int option) \<Rightarrow> int \<Rightarrow> CNCMachineConfig list
   \<Rightarrow> SimulationManager \<Rightarrow> SimulationManager \<times> (string \<times> body) list" where
  "SimulationManager_publishSensorData envs Date_parse now roster mgr =
     (if \<not> mqttClient mgr \<or> \<not> isRunning mgr then (mgr, [])
      else
        (case generateOperationalReadings envs roster (dataFactory mgr) of
           (allReadings, gens) \<Rightarrow>
             (let fmt = env_or (outputFormat (config mgr)) ''uns'';
                  issued =
                    concat (map (\<lambda>(machineId, readings).
                                   (case find (\<lambda>m. machine_id m = machineId) roster of
                                      None \<Rightarrow> []
                                    | Some m \<Rightarrow>
                                        concat (map (publications_of_reading fmt Date_parse m) readings)))
                                allReadings)
              in (mgr\<lparr>dataFactory := gens,
                      metrics := updateMetrics now (service_startTime mgr)
                                   ((metrics mgr)\<lparr>activeMachines := length allReadings\<rparr>)\<rparr>,
                  issued))))"

section \<open>The states of a running MQTT service\<close>

text \<open>
  After \<open>start\<close> the service holds a client, is running and owns the factory that its
  constructor built.  From then on the timer fires ticks, and the callbacks of earlier
  publications arrive in between.
\<close>

inductive running_states :: "CNCMachineConfig list \<Rightarrow> SimulationManager \<Rightarrow> bool"
  for roster :: "CNCMachineConfig list" where
  started:
    "mqttClient mgr \<Longrightarrow> isRunning mgr \<Longrightarrow> dataFactory mgr = new_CNCDataGeneratorFactory envs roster
       \<Longrightarrow> running_states roster mgr"
| tick:
    "running_states roster mgr
       \<Longrightarrow> running_states roster (fst (SimulationManager_publishSensorData envs Date_parse now roster mgr))"
| callback:
    "running_states roster mgr
       \<Longrightarrow> running_states roster (mgr\<lparr>metrics := publishMessage_callback tp err (metrics mgr)\<rparr>)"

section \<open>Reading a message and a trace\<close>

text \<open>
  \<open>Number.isFinite\<close>, and the fields of a message read through the optional chain
  (\<open>message.payload?.value\<close> and so on).
\<close>

fun Number_isFinite :: "jsval \<Rightarrow> bool" where
  "Number_isFinite (JNum (Fin _)) = True"
| "Number_isFinite _ = False"

definition message_value :: "UMHMessage \<Rightarrow> jsval" where
  "message_value message = (case umh_payload message of None \<Rightarrow> JUndefined | Some p \<Rightarrow> umh_value p)"

definition message_timestamp_ms :: "UMHMessage \<Rightarrow> jsval" where
  "message_timestamp_ms message =
     (case umh_payload message of None \<Rightarrow> JUndefined | Some p \<Rightarrow> timestamp_ms p)"

definition message_location_path :: "UMHMessage \<Rightarrow> string" where
  "message_location_path message =
     (case umh_metadata message of None \<Rightarrow> [] | Some md \<Rightarrow> location_path md)"

definition message_tag_name :: "UMHMessage \<Rightarrow> string" where
  "message_tag_name message = (case umh_metadata message of None \<Rightarrow> [] | Some md \<Rightarrow> tag_name md)"

text \<open>The messages that the requests of a trace carried, whatever their outcome.\<close>

fun request_messages :: "request \<Rightarrow> UMHMessage list" where
  "request_messages (Get _) = []"
| "request_messages (Post_data message) = [message]"
| "request_messages (Post_batch messages) = messages"

fun event_messages :: "event \<Rightarrow> UMHMessage list" where
  "event_messages (Delivered rq) = request_messages rq"
| "event_messages (Rejected rq _) = request_messages rq"
| "event_messages (Waited _) = []"

definition requested_messages :: "event list \<Rightarrow> UMHMessage list" where
  "requested_messages evs = concat (map event_messages evs)"

text \<open>The messages delivered, and the waits, of a trace.\<close>

fun delivered_messages :: "event list \<Rightarrow> UMHMessage list" where
  "delivered_messages [] = []"
| "delivered_messages (Delivered rq # evs) = request_messages rq @ delivered_messages evs"
| "delivered_messages (_ # evs) = delivered_messages evs"

fun waits :: "event list \<Rightarrow> nat list" where
  "waits [] = []"
| "waits (Waited ms # evs) = ms # waits evs"
| "waits (_ # evs) = waits evs"

section \<open>The tool index in the words of the specification\<close>

text \<open>
  Not from the source: the specification's formula for the tool index, the progress
  fraction clamped to \<open>[0, 0.999]\<close>, kept apart to compare \<open>toolNumber\<close> with it.
\<close>

definition spec_tool_index :: "real \<Rightarrow> int" where
  "spec_tool_index progress = \<lfloor>min (max progress 0) 0.999 * 5\<rfloor> + 1"

section \<open>Reading the metadata of a payload\<close>

text \<open>\<open>payload.metadata?.tool_wear_percent\<close>.\<close>

definition tool_wear_percent :: "MQTTPayload \<Rightarrow> jsval" where
  "tool_wear_percent p =
     (case metadata p of
        None \<Rightarrow> JUndefined
      | Some md \<Rightarrow> (case map_of md ''tool_wear_percent'' of None \<Rightarrow> JUndefined | Some v \<Rightarrow> v))"

section \<open>Concrete inputs\<close>

text \<open>The first machine of the roster, with the default location.\<close>

definition example_config :: CNCMachineConfig where
  "example_config =
     mk_machine ''cnc-001'' ''Haas VF-2 Mill #1'' ''Haas'' ''VF-2'' ''demo-factory'' ''plant1''
       ''machining'' ''cell-01'' S_operational 8100 3 15 25400 ''762x406x508''"

text \<open>
  A generator in phase \<open>p\<close>, entered at time 0 for \<open>d\<close> seconds; of its twenty tools the
  first is worn to 0.25, the second to 0.1 and the others to 0.2.
\<close>

definition example_generator :: "phase \<Rightarrow> real \<Rightarrow> CNCDataGenerator" where
  "example_generator p d =
     \<lparr>machine = example_config,
      currentCycle = \<lparr>phase = p, duration = Fin d, startTime = 0\<rparr>,
      lastUpdate = 0, cycleStartTime = 0, totalPartsProduced = 0,
      toolWearFactors =
        (\<lambda>i. if 1 \<le> i \<and> i \<le> 20
              then Some (if i = 1 then 0.25 else if i = 2 then 0.1 else 0.2) else None),
      vibrationBaseline = 0.2, temperatureBaseline = 50\<rparr>"

text \<open>
  \<open>parseFloat\<close> on the strings of digits, as the work envelopes of the roster are made
  of; and an environment whose clock reads \<open>t\<close> and whose generator draws \<open>r\<close> at every
  call site.
\<close>

definition digit_of :: "char \<Rightarrow> nat option" where
  "digit_of c = map_of (zip ''0123456789'' [0..<10]) c"

fun digits_value :: "nat \<Rightarrow> string \<Rightarrow> nat option" where
  "digits_value acc [] = Some acc"
| "digits_value acc (c # cs) =
     (case digit_of c of None \<Rightarrow> None | Some d \<Rightarrow> digits_value (acc * 10 + d) cs)"

definition example_parseFloat :: "string \<Rightarrow> jsnum" where
  "example_parseFloat s =
     (if s = [] then NaN
      else (case digits_value 0 s of None \<Rightarrow> NaN | Some n \<Rightarrow> Fin (real n)))"

definition example_env :: "int \<Rightarrow> real \<Rightarrow> env" where
  "example_env t r =
     \<lparr>Date_now = (\<lambda>_. t), Math_random = (\<lambda>_. r), OUTPUT_FORMAT = None,
      parseFloat = example_parseFloat\<rparr>"

text \<open>
  The roster with the default location, the factory built from it, and a running
  service of the direct integration that sends message by message.
\<close>

definition example_roster :: "CNCMachineConfig list" where
  "example_roster = generateMachineConfigs (getLocationConfig None None None None)"

definition example_metrics :: UMHSimulationMetrics where
  "example_metrics =
     \<lparr>totalMessagesPublished = 0, messagesPerSecond = 0, activeMachines = 0, uptime = 0,
      error_list = [], batchesSent = 0\<rparr>"

definition example_manager :: UMHSimulationManager where
  "example_manager =
     \<lparr>dataFactory = new_CNCDataGeneratorFactory (\<lambda>_. example_env 1000 (1/2)) example_roster,
      publishTimer = True,
      config = \<lparr>umhCoreUrl = ''http://umh-core:8090'', publishInterval = 3000,
                 enableLogging = Some True, batchSize = None\<rparr>,
      isRunning = True, service_startTime = 1000, metrics = example_metrics,
      umhClient = Some (new_UMHClient \<lparr>opt_umhCoreUrl = ''http://umh-core:8090'',
                                        opt_timeout = Some 10000, opt_retries = Some 3\<rparr>)\<rparr>"

text \<open>
  The runtime's date parser at the strings that the examples hand to it: the ISO string
  of the tick at time 4000, and strings that are no dates.
\<close>

definition example_parse :: "string \<Rightarrow> int option" where
  "example_parse s = (if s = ''1970-01-01T00:00:04.000Z'' then Some 4000 else None)"

definition idle_net :: net where
  "idle_net = \<lparr>calls = 0, trace = []\<rparr>"

text \<open>A running service over MQTT, right after its start.\<close>

definition example_mqtt_manager :: SimulationManager where
  "example_mqtt_manager =
     \<lparr>dataFactory = new_CNCDataGeneratorFactory (\<lambda>_. example_env 1000 (1/2)) example_roster,
      publishTimer = True,
      config = \<lparr>mqttBrokerUrl = ''mqtt://localhost:1883'', mqtt_publishInterval = 3000,
                 mqtt_enableLogging = Some True, outputFormat = Some ''both''\<rparr>,
      isRunning = True, service_startTime = 1000,
      metrics = \<lparr>totalMessagesPublished = 0, messagesPerSecond = 0, activeMachines = 0, uptime = 0,
                  error_list = []\<rparr>,
      mqttClient = True\<rparr>"

text \<open>
  The first reading of a tick of the machine \<open>mid\<close> in the example service, taken when
  every clock reads 4000, and the message made of it.
\<close>

definition example_reading :: "string \<Rightarrow> SensorReading" where
  "example_reading mid =
     (case map_of (dataFactory example_manager) mid of
        None \<Rightarrow> \<lparr>topicPath = [], payload = \<lparr>timestamp = [], source = [], payload_value = JUndefined,
                                             payload_unit = None, quality = None, metadata = None\<rparr>\<rparr>
      | Some g \<Rightarrow> hd (fst (generateSensorReadings (example_env 4000 (1/4)) g)))"

definition example_message :: "string \<Rightarrow> UMHMessage" where
  "example_message mid =
     (case find (\<lambda>m. machine_id m = mid) example_roster of
        None \<Rightarrow> \<lparr>umh_payload = None, umh_metadata = None, topic = []\<rparr>
      | Some m \<Rightarrow> convertToUMHMessage example_parse (with_machine m (example_reading mid)))"

text \<open>
  A tick of the example service at time 4000.  The messages it has to send, and the
  tick in a world where the first three requests fail and every later one would be
  answered.
\<close>

definition example_envs :: "string \<Rightarrow> env" where
  "example_envs = (\<lambda>_. example_env 4000 (1/4))"

definition example_tick_messages :: "UMHMessage list" where
  "example_tick_messages =
     collectUMHMessages example_parse example_roster
       (fst (generateOperationalReadings example_envs example_roster (dataFactory example_manager)))"

definition failing_http :: http where
  "failing_http = (\<lambda>k rq. if k < 3 then Some ''ETIMEDOUT'' else None)"

definition failing_tick :: "UMHSimulationManager \<times> net" where
  "failing_tick =
     UMHSimulationManager_publishSensorData example_envs example_parse 4000 failing_http
       example_roster example_manager idle_net"

text \<open>
  A machining phase of 600 seconds that began at time 0, read at the end of its last
  millisecond: \<open>updateCycle\<close> reads the clock at 599999 and \<open>generateCurrentToolPayload\<close>,
  later in the same call, at 600000.
\<close>

definition race_env :: env where
  "race_env =
     \<lparr>Date_now = (\<lambda>s. if s = In_CurrentTool then 600000 else 599999), Math_random = (\<lambda>_. 1/2),
      OUTPUT_FORMAT = None, parseFloat = example_parseFloat\<rparr>"

text \<open>A reading whose timestamp is no date, and a message whose timestamp is the epoch.\<close>

definition unparsable_reading :: SensorReading where
  "unparsable_reading =
     \<lparr>topicPath = ''demo-factory/plant1/machining/cell-01/cnc-001/info/sensors/spindle-speed'',
      payload = \<lparr>timestamp = ''yesterday'', source = ''cnc-001'', payload_value = JNum (Fin 810),
                 payload_unit = Some ''rpm'', quality = Some Q_good, metadata = None\<rparr>\<rparr>"

definition epoch_message :: UMHMessage where
  "epoch_message =
     \<lparr>umh_payload = Some \<lparr>umh_value = JNum (Fin 810), timestamp_ms = JNum (Fin 0)\<rparr>,
      umh_metadata = Some \<lparr>location_path = ''demo-factory.plant1.machining.cell-01.cnc-001'',
                            data_contract = ''_raw'', tag_name = ''spindle_speed'',
                            umh_unit = Some ''rpm'', umh_quality = Some Q_good,
                            umh_source = ''cnc-001'', original_metadata = None\<rparr>,
      topic = ''umh.v1.demo-factory.plant1.machining.cell-01.cnc-001._raw.spindle_speed''\<rparr>"

section \<open>Properties of the cycle\<close>

declare publish_loop.simps [simp del]
declare publish_batches.simps [simp del]
declare string_of_nat.simps [simp del]

text \<open>
  C1.  Whatever phase the machine is in, the phase change made by \<open>advanceCyclePhase\<close> is one
  of the eight transitions of the cycle, and for every draw \<open>r\<close> in \<open>[0,1)\<close> the new
  planned duration is a finite number of seconds inside the range of that transition:
  idle to loading 30..150, loading to machining 600..2400, machining to unloading 15..75,
  unloading to idle 60..360, unloading to maintenance 900..4500, unloading to error
  300..900, maintenance to idle and error to idle 60..360.
\<close>

theorem advanceCyclePhase_duration_in_range:
  assumes "0 \<le> r" and "r < 1"
  shows "\<exists>d. duration (currentCycle (advanceCyclePhase now rb r g)) = Fin d \<and>
           (case (phase (currentCycle g), phase (currentCycle (advanceCyclePhase now rb r g))) of
              (P_idle, P_loading) \<Rightarrow> 30 \<le> d \<and> d \<le> 150
            | (P_loading, P_machining) \<Rightarrow> 600 \<le> d \<and> d \<le> 2400
            | (P_machining, P_unloading) \<Rightarrow> 15 \<le> d \<and> d \<le> 75
            | (P_unloading, P_idle) \<Rightarrow> 60 \<le> d \<and> d \<le> 360
            | (P_unloading, P_maintenance) \<Rightarrow> 900 \<le> d \<and> d \<le> 4500
            | (P_unloading, P_error) \<Rightarrow> 300 \<le> d \<and> d \<le> 900
            | (P_maintenance, P_idle) \<Rightarrow> 60 \<le> d \<and> d \<le> 360
            | (P_error, P_idle) \<Rightarrow> 60 \<le> d \<and> d \<le> 360
            | _ \<Rightarrow> False)"
  using assms by (cases "phase (currentCycle g)") (auto simp: advanceCyclePhase_def)

theorem advanceCyclePhase_duration_in_range_witness:
  "duration (currentCycle (advanceCyclePhase 5000 (1/10) (1/2) (example_generator P_unloading 20)))
     = Fin 2700
   \<and> phase (currentCycle (advanceCyclePhase 5000 (1/10) (1/2) (example_generator P_unloading 20)))
     = P_maintenance"
  using advanceCyclePhase_duration_in_range [of "1/2" 5000 "1/10" "example_generator P_unloading 20"]
  by (simp add: advanceCyclePhase_def example_generator_def)

text \<open>
  C5.  Two calls of \<open>updateCycle\<close> at the same instant \<open>now\<close> (every clock read of both
  calls returns \<open>now\<close>) advance the phase at most once: the second call changes nothing,
  so the phase, its start time and its planned duration stay as the first call left
  them, whatever the second call draws.  The first call's draw is a value of
  \<open>Math.random()\<close>, hence not negative.
\<close>

theorem updateCycle_idempotent_same_instant:
  assumes "0 \<le> r"
  shows "updateCycle now now rb' r' (updateCycle now now rb r g) = updateCycle now now rb r g"
proof (cases "js_ge (Fin (real_of_int (now - startTime (currentCycle g)) / 1000))
                    (duration (currentCycle g))")
  case False
  then show ?thesis by (simp add: updateCycle_def)
next
  case True
  have "\<exists>d p. currentCycle (advanceCyclePhase now rb r g)
                 = \<lparr>phase = p, duration = Fin d, startTime = now\<rparr> \<and> 0 < d"
    using assms
    by (cases "phase (currentCycle g)") (auto simp: advanceCyclePhase_def intro: add_nonneg_pos)
  then obtain d p where
    c: "currentCycle (advanceCyclePhase now rb r g) = \<lparr>phase = p, duration = Fin d, startTime = now\<rparr>"
    and d: "0 < d"
    by blast
  have "\<not> js_ge (Fin (real_of_int (now - startTime (currentCycle (advanceCyclePhase now rb r g))) / 1000))
            (duration (currentCycle (advanceCyclePhase now rb r g)))"
    using d by (simp add: c)
  with True show ?thesis by (simp add: updateCycle_def)
qed

theorem updateCycle_idempotent_same_instant_witness:
  "currentCycle (updateCycle 45000 45000 (1/2) (1/2)
                   (updateCycle 45000 45000 (1/2) (1/2) (example_generator P_loading 45)))
     = \<lparr>phase = P_machining, duration = Fin 1500, startTime = 45000\<rparr>"
  using updateCycle_idempotent_same_instant
          [of "1/2" 45000 "1/2" "1/2" "1/2" "example_generator P_loading 45"]
  by (simp add: updateCycle_def advanceCyclePhase_def example_generator_def)

section \<open>Properties of the factory and of the MQTT service\<close>

lemma Map_set_fresh: "k \<notin> fst ` set kvs \<Longrightarrow> Map_set k v kvs = kvs @ [(k, v)]"
  by (induction kvs) auto

lemma factory_fold_keys:
  "distinct (map fst acc @ map machine_id ms) \<Longrightarrow>
     map fst (fold (\<lambda>m gs. Map_set (machine_id m) (new_CNCDataGenerator (envs (machine_id m)) m) gs) ms acc)
       = map fst acc @ map machine_id ms"
proof (induction ms arbitrary: acc)
  case Nil
  then show ?case by simp
next
  case (Cons m ms)
  have fresh: "machine_id m \<notin> fst ` set acc" using Cons.prems by auto
  show ?case
    using Cons.prems by (simp add: Map_set_fresh [OF fresh] Cons.IH)
qed

lemma factory_keys:
  "distinct (map machine_id roster) \<Longrightarrow>
     map fst (new_CNCDataGeneratorFactory envs roster) = map machine_id roster"
  using factory_fold_keys [of "[]" roster envs] by (simp add: new_CNCDataGeneratorFactory_def)

text \<open>With distinct keys, the readings are those of the operational machines, in order.\<close>

lemma operational_loop:
  "distinct (map fst acc @ map fst gs) \<Longrightarrow>
     generateOperationalReadings_loop envs roster gs acc =
       (acc @ map (\<lambda>(machineId, g). (machineId, fst (generateSensorReadings (envs machineId) g)))
                  (filter (\<lambda>(machineId, g). is_operational roster machineId) gs),
        map (\<lambda>(machineId, g).
               (machineId, if is_operational roster machineId
                           then snd (generateSensorReadings (envs machineId) g) else g)) gs)"
proof (induction gs arbitrary: acc)
  case Nil
  then show ?case by simp
next
  case (Cons kg gs)
  obtain k g where kg: "kg = (k, g)" by (cases kg)
  have fresh: "k \<notin> fst ` set acc" using Cons.prems kg by auto
  show ?case
  proof (cases "is_operational roster k")
    case True
    obtain rs g' where r: "generateSensorReadings (envs k) g = (rs, g')"
      by (cases "generateSensorReadings (envs k) g")
    have d: "distinct (map fst (acc @ [(k, rs)]) @ map fst gs)" using Cons.prems kg by auto
    show ?thesis
      using True r kg by (simp add: Map_set_fresh [OF fresh] Cons.IH [OF d])
  next
    case False
    have d: "distinct (map fst acc @ map fst gs)" using Cons.prems kg by auto
    show ?thesis using False kg by (simp add: Cons.IH [OF d])
  qed
qed

lemma operational_readings:
  "distinct (map fst gs) \<Longrightarrow>
     generateOperationalReadings envs roster gs =
       (map (\<lambda>(machineId, g). (machineId, fst (generateSensorReadings (envs machineId) g)))
            (filter (\<lambda>(machineId, g). is_operational roster machineId) gs),
        map (\<lambda>(machineId, g).
               (machineId, if is_operational roster machineId
                           then snd (generateSensorReadings (envs machineId) g) else g)) gs)"
  using operational_loop [of "[]" gs envs roster] by (simp add: generateOperationalReadings_def)

lemma operational_keys:
  "distinct (map fst gs) \<Longrightarrow>
     map fst (fst (generateOperationalReadings envs roster gs)) = filter (is_operational roster) (map fst gs)
   \<and> map fst (snd (generateOperationalReadings envs roster gs)) = map fst gs"
  by (simp add: operational_readings filter_map comp_def case_prod_unfold)

lemma roster_machine_ids:
  "map machine_id (generateMachineConfigs loc) =
     [''cnc-001'', ''cnc-002'', ''cnc-003'', ''cnc-004'', ''cnc-005'', ''cnc-006'', ''cnc-007'',
      ''cnc-008'', ''cnc-009'', ''cnc-010'']"
  by (cases loc) (simp add: generateMachineConfigs_def mk_machine_def)

lemma roster_operational:
  "filter (is_operational (generateMachineConfigs loc)) (map machine_id (generateMachineConfigs loc)) =
     [''cnc-001'', ''cnc-002'', ''cnc-003'', ''cnc-004'', ''cnc-005'', ''cnc-006'', ''cnc-007'',
      ''cnc-008'', ''cnc-009'']"
  by (cases loc) (simp add: generateMachineConfigs_def mk_machine_def is_operational_def)

lemma roster_distinct: "distinct (map machine_id (generateMachineConfigs loc))"
  by (simp add: roster_machine_ids)

lemma mqtt_tick_running:
  assumes "mqttClient mgr" and "isRunning mgr"
  shows "fst (SimulationManager_publishSensorData envs Date_parse now roster mgr) =
     mgr\<lparr>dataFactory := snd (generateOperationalReadings envs roster (dataFactory mgr)),
         metrics := updateMetrics now (service_startTime mgr)
                      ((metrics mgr)\<lparr>activeMachines :=
                          length (fst (generateOperationalReadings envs roster (dataFactory mgr)))\<rparr>)\<rparr>"
  using assms by (simp add: SimulationManager_publishSensorData_def Let_def case_prod_unfold)

lemma activeMachines_updateMetrics [simp]:
  "activeMachines (updateMetrics now start mt) = activeMachines mt"
  by (simp add: updateMetrics_def Let_def)

lemma activeMachines_addError [simp]: "activeMachines (addError err mt) = activeMachines mt"
  by (simp add: addError_def Let_def)

lemma activeMachines_callback:
  "activeMachines (publishMessage_callback tp err mt) = activeMachines mt"
  by (cases err) (simp_all add: publishMessage_callback_def)

lemma running_states_invariant:
  assumes "running_states roster mgr" and "distinct (map machine_id roster)"
  shows "mqttClient mgr \<and> isRunning mgr \<and> map fst (dataFactory mgr) = map machine_id roster"
  using assms
proof (induction rule: running_states.induct)
  case (started mgr envs)
  then show ?case by (simp add: factory_keys)
next
  case (tick mgr envs Date_parse now)
  then have inv: "mqttClient mgr" "isRunning mgr" "map fst (dataFactory mgr) = map machine_id roster"
    by simp_all
  have d: "distinct (map fst (dataFactory mgr))" using inv tick.prems by simp
  show ?case
    using inv operational_keys [OF d, of envs roster]
    by (simp add: mqtt_tick_running)
next
  case (callback mgr tp err)
  then show ?case by simp
qed

text \<open>
  C9.  With the built-in roster, whatever the location names, a tick of the running
  service generates readings for the nine machines that are not offline and for no
  other: the machine \<open>cnc-010\<close>, the only one whose status is offline, gets no readings
  and its generator is left as it was.  After the tick \<open>activeMachines\<close> is 9, and the
  callbacks of the publications do not change it.  This holds in every state of the
  running service, so after any tick.
\<close>

theorem offline_machine_excluded:
  assumes "running_states (generateMachineConfigs loc) mgr"
      and "SimulationManager_publishSensorData envs Date_parse now (generateMachineConfigs loc) mgr
             = (mgr', issued)"
  shows "activeMachines (metrics mgr') = 9
       \<and> map fst (fst (generateOperationalReadings envs (generateMachineConfigs loc) (dataFactory mgr)))
           = [''cnc-001'', ''cnc-002'', ''cnc-003'', ''cnc-004'', ''cnc-005'', ''cnc-006'', ''cnc-007'',
              ''cnc-008'', ''cnc-009'']
       \<and> map_of (dataFactory mgr') ''cnc-010'' = map_of (dataFactory mgr) ''cnc-010''
       \<and> activeMachines (publishMessage_callback tp err (metrics mgr')) = 9"
proof -
  let ?roster = "generateMachineConfigs loc"
  from running_states_invariant [OF assms(1) roster_distinct]
  have inv: "mqttClient mgr" "isRunning mgr" "map fst (dataFactory mgr) = map machine_id ?roster"
    by simp_all
  have d: "distinct (map fst (dataFactory mgr))" using inv roster_distinct by simp
  have keys: "map fst (fst (generateOperationalReadings envs ?roster (dataFactory mgr)))
                = filter (is_operational ?roster) (map machine_id ?roster)"
    using operational_keys [OF d, of envs ?roster] inv by simp
  then have keys9: "map fst (fst (generateOperationalReadings envs ?roster (dataFactory mgr)))
      = [''cnc-001'', ''cnc-002'', ''cnc-003'', ''cnc-004'', ''cnc-005'', ''cnc-006'', ''cnc-007'',
         ''cnc-008'', ''cnc-009'']"
    by (simp add: roster_operational)
  have "length (fst (generateOperationalReadings envs ?roster (dataFactory mgr))) = 9"
    using arg_cong [OF keys9, of length] by simp
  moreover have mgr': "mgr' = fst (SimulationManager_publishSensorData envs Date_parse now ?roster mgr)"
    using assms(2) by simp
  ultimately have active: "activeMachines (metrics mgr') = 9"
    using inv by (simp add: mqtt_tick_running)
  have off: "\<not> is_operational ?roster ''cnc-010''"
    by (cases loc) (simp add: generateMachineConfigs_def mk_machine_def is_operational_def)
  have gens: "dataFactory mgr' = snd (generateOperationalReadings envs ?roster (dataFactory mgr))"
    using mgr' inv by (simp add: mqtt_tick_running)
  have "map_of (map (\<lambda>(machineId, g).
               (machineId, if is_operational ?roster machineId
                           then snd (generateSensorReadings (envs machineId) g) else g)) gs) ''cnc-010''
        = map_of gs ''cnc-010''" for gs
    using off by (induction gs) auto
  then have same: "map_of (dataFactory mgr') ''cnc-010'' = map_of (dataFactory mgr) ''cnc-010''"
    by (simp add: gens operational_readings [OF d])
  show ?thesis using active keys9 same by (simp add: activeMachines_callback)
qed

theorem offline_machine_excluded_witness:
  "activeMachines (metrics (fst (SimulationManager_publishSensorData (\<lambda>_. example_env 4000 (1/4))
      example_parse 4000 example_roster example_mqtt_manager))) = 9"
proof -
  have r: "running_states example_roster example_mqtt_manager"
    by (rule running_states.started [of _ "\<lambda>_. example_env 1000 (1/2)"])
       (simp_all add: example_mqtt_manager_def)
  obtain mgr' issued where t: "SimulationManager_publishSensorData (\<lambda>_. example_env 4000 (1/4))
      example_parse 4000 example_roster example_mqtt_manager = (mgr', issued)"
    by (cases "SimulationManager_publishSensorData (\<lambda>_. example_env 4000 (1/4))
      example_parse 4000 example_roster example_mqtt_manager")
  show ?thesis
    using offline_machine_excluded [OF r [unfolded example_roster_def] t [unfolded example_roster_def]] t
    by simp
qed

section \<open>Properties of the validation\<close>

lemma valid_iff:
  "valid (validateUMHMessage message) \<longleftrightarrow>
     (\<exists>p md. umh_payload message = Some p \<and> umh_metadata message = Some md
        \<and> umh_value p \<noteq> JUndefined \<and> umh_value p \<noteq> JNull
        \<and> truthy (timestamp_ms p) \<and> is_number (timestamp_ms p)
        \<and> location_path md \<noteq> [] \<and> data_contract md \<noteq> [] \<and> tag_name md \<noteq> []
        \<and> topic message \<noteq> [] \<and> startsWith (topic message) ''umh.v1.'')"
  by (auto simp: validateUMHMessage_def Let_def split: option.splits)

lemma getTime_cases: "getTime d = NaN \<or> (\<exists>t. getTime d = Fin (real_of_int t))"
  by (cases d) (simp_all add: getTime_def)

lemma produced_timestamp:
  "message_timestamp_ms (convertToUMHMessage Date_parse r)
     = JNum (getTime (Date_parse (timestamp (payload r))))"
  by (simp add: convertToUMHMessage_def message_timestamp_ms_def Let_def)

lemma produced_topic: "topic (convertToUMHMessage Date_parse r) \<noteq> []"
  by (simp add: convertToUMHMessage_def Let_def buildUMHTopic_def)

lemma valid_timestamp:
  "valid (validateUMHMessage message) \<Longrightarrow>
     truthy (message_timestamp_ms message) \<and> is_number (message_timestamp_ms message)"
  by (auto simp: valid_iff message_timestamp_ms_def)

text \<open>A time value is never infinite, so a produced message that is valid has a finite one.\<close>

lemma valid_produced_finite:
  assumes "valid (validateUMHMessage (convertToUMHMessage Date_parse r))"
  shows "Number_isFinite (message_timestamp_ms (convertToUMHMessage Date_parse r))"
proof -
  from valid_timestamp [OF assms]
  have "truthy (JNum (getTime (Date_parse (timestamp (payload r)))))"
    by (simp add: produced_timestamp)
  then show ?thesis
    using getTime_cases [of "Date_parse (timestamp (payload r))"]
    by (auto simp: produced_timestamp)
qed

lemma produced_not_finite:
  assumes "\<not> Number_isFinite (message_timestamp_ms (convertToUMHMessage Date_parse r))"
  shows "\<not> truthy (message_timestamp_ms (convertToUMHMessage Date_parse r))"
  using assms getTime_cases [of "Date_parse (timestamp (payload r))"]
  by (auto simp: produced_timestamp)

lemma invalid_conditions:
  assumes "message_value message = JUndefined \<or> message_value message = JNull
         \<or> \<not> truthy (message_timestamp_ms message) \<or> \<not> is_number (message_timestamp_ms message)
         \<or> message_location_path message = [] \<or> message_tag_name message = [] \<or> topic message = []"
  shows "\<not> valid (validateUMHMessage message)"
  using assms
  by (auto simp: valid_iff message_value_def message_timestamp_ms_def message_location_path_def
      message_tag_name_def)

text \<open>
  The validation by itself tests that the timestamp is a truthy number, and the two
  infinities are truthy numbers: a message that carries one passes.  No message made by
  \<open>convertToUMHMessage\<close> carries one.
\<close>

lemma validateUMHMessage_accepts_infinite_timestamp:
  "valid (validateUMHMessage
     \<lparr>umh_payload = Some \<lparr>umh_value = JNum (Fin 1), timestamp_ms = JNum PosInfinity\<rparr>,
      umh_metadata = Some \<lparr>location_path = ''e.s.a.w.m'', data_contract = ''_raw'', tag_name = ''t'',
                            umh_unit = None, umh_quality = None, umh_source = ''m'',
                            original_metadata = None\<rparr>,
      topic = ''umh.v1.e.s.a.w.m._raw.t''\<rparr>)"
  by (simp add: validateUMHMessage_def startsWith_def)

lemma valid_produced_iff:
  "valid (validateUMHMessage (convertToUMHMessage Date_parse (with_machine m r))) \<longleftrightarrow>
     payload_value (payload r) \<noteq> JUndefined \<and> payload_value (payload r) \<noteq> JNull
     \<and> truthy (JNum (getTime (Date_parse (timestamp (payload r)))))
     \<and> extractSensorType (topicPath r) \<noteq> []"
  by (simp add: valid_iff convertToUMHMessage_def with_machine_def Let_def buildLocationPath_def
      buildUMHTopic_def UMH_DATA_CONTRACTS_RAW_def startsWith_def replace_hyphens_def)

lemma split_on_no_sep: "c \<notin> set s \<Longrightarrow> split_on c s = [s]"
  by (induction s) auto

lemma split_on_append:
  "c \<notin> set s \<Longrightarrow> \<exists>ps. ps \<noteq> [] \<and> split_on c (p @ c # s) = ps @ [s]"
proof (induction p)
  case Nil
  then have "split_on c ([] @ c # s) = [[]] @ [s]" by (simp add: split_on_no_sep)
  then show ?case by blast
next
  case (Cons x p)
  then obtain ps where ps: "ps \<noteq> []" "split_on c (p @ c # s) = ps @ [s]" by blast
  then obtain q qs where q: "ps = q # qs" by (cases ps) auto
  show ?case
  proof (cases "x = c")
    case True
    with ps have "split_on c ((x # p) @ c # s) = ([] # ps) @ [s]" by simp
    then show ?thesis by blast
  next
    case False
    with ps q have "split_on c ((x # p) @ c # s) = ((x # q) # qs) @ [s]" by simp
    then show ?thesis by blast
  qed
qed

lemma extractSensorType_suffix:
  "CHR ''/'' \<notin> set s \<Longrightarrow> extractSensorType (p @ CHR ''/'' # s) = s"
  using split_on_append [of "CHR ''/''" s p] by (auto simp: extractSensorType_def)

section \<open>What a tick of the direct integration sends\<close>

lemma requested_messages_append [simp]:
  "requested_messages (xs @ ys) = requested_messages xs @ requested_messages ys"
  by (simp add: requested_messages_def)

lemma waits_append [simp]: "waits (xs @ ys) = waits xs @ waits ys"
  by (induction xs rule: waits.induct) simp_all

lemma delivered_messages_append [simp]:
  "delivered_messages (xs @ ys) = delivered_messages xs @ delivered_messages ys"
  by (induction xs rule: delivered_messages.induct) simp_all

lemma send_requested:
  "send h rq n = (r, n') \<Longrightarrow>
     requested_messages (trace n') = requested_messages (trace n) @ request_messages rq"
  by (auto simp: send_def requested_messages_def split: option.splits)

text \<open>The three ways through one round of the loop of \<open>publish\<close>.\<close>

lemma publish_loop_done:
  "\<not> a \<le> retries c \<Longrightarrow>
     publish_loop h c m a le n = (Inl (failure_message (retries c) le), n)"
  by (simp add: publish_loop.simps [of h c m a])

lemma publish_loop_ok:
  "a \<le> retries c \<Longrightarrow> h (calls n) (Post_data m) = None \<Longrightarrow>
     publish_loop h c m a le n =
       (Inr (), \<lparr>calls = calls n + 1, trace = trace n @ [Delivered (Post_data m)]\<rparr>)"
  by (simp add: publish_loop.simps [of h c m a] send_def)

lemma publish_loop_retry:
  "a \<le> retries c \<Longrightarrow> h (calls n) (Post_data m) = Some e \<Longrightarrow>
     publish_loop h c m a le n =
       publish_loop h c m (a + 1) (Some e)
         \<lparr>calls = calls n + 1,
          trace = trace n @ Rejected (Post_data m) e
                    # (if a < retries c then [Waited (backoff_delay a)] else [])\<rparr>"
  by (simp add: publish_loop.simps [of h c m a] send_def wait_def)

lemma publish_loop_requested:
  "publish_loop h c m a le n = (res, n') \<Longrightarrow>
     set (requested_messages (trace n')) \<subseteq> set (requested_messages (trace n)) \<union> {m}"
proof (induction "nat (retries c + 1 - a)" arbitrary: a le n)
  case 0
  then have "\<not> a \<le> retries c" by simp
  with "0.prems" show ?case by (auto simp: publish_loop_done)
next
  case (Suc d)
  then have a: "a \<le> retries c" by simp
  show ?case
  proof (cases "h (calls n) (Post_data m)")
    case None
    with Suc.prems a show ?thesis by (auto simp: publish_loop_ok requested_messages_def)
  next
    case (Some e)
    let ?n2 = "\<lparr>calls = calls n + 1,
                trace = trace n @ Rejected (Post_data m) e
                          # (if a < retries c then [Waited (backoff_delay a)] else [])\<rparr>"
    have rec: "publish_loop h c m (a + 1) (Some e) ?n2 = (res, n')"
      using Suc.prems a Some by (simp add: publish_loop_retry)
    have d: "d = nat (retries c + 1 - (a + 1))" using Suc.hyps(2) by simp
    have "set (requested_messages (trace ?n2)) \<subseteq> set (requested_messages (trace n)) \<union> {m}"
      by (auto simp: requested_messages_def)
    with Suc.hyps(1) [OF d rec] show ?thesis by blast
  qed
qed

lemma publish_each_requested:
  "publish_each h c messages mt n = (res, mt', n') \<Longrightarrow>
     set (requested_messages (trace n')) \<subseteq> set (requested_messages (trace n)) \<union> set messages"
proof (induction messages arbitrary: mt n)
  case Nil
  then show ?case by simp
next
  case (Cons message rest)
  obtain r n1 where p: "publish h c message n = (r, n1)" by (cases "publish h c message n")
  have sub: "set (requested_messages (trace n1)) \<subseteq> set (requested_messages (trace n)) \<union> {message}"
    using p publish_loop_requested by (simp add: publish_def)
  show ?case
  proof (cases r)
    case (Inl err)
    with Cons.prems p have "n' = n1" by simp
    with sub show ?thesis by auto
  next
    case (Inr u)
    with Cons.prems p
    have "publish_each h c rest (mt\<lparr>totalMessagesPublished := totalMessagesPublished mt + 1\<rparr>) n1
            = (res, mt', n')" by simp
    from Cons.IH [OF this] sub show ?thesis by auto
  qed
qed

lemma publishBatch_requested:
  "publishBatch h c batch n = (res, n') \<Longrightarrow>
     requested_messages (trace n') = requested_messages (trace n) @ batch"
  by (auto simp: publishBatch_def split: prod.splits option.splits dest: send_requested)

lemma publish_batches_requested:
  "publish_batches h c b messages i mt n = (res, mt', n') \<Longrightarrow>
     set (requested_messages (trace n')) \<subseteq> set (requested_messages (trace n)) \<union> set messages"
proof (induction h c b messages i mt n rule: publish_batches.induct)
  case (1 h c b messages i mt n)
  show ?case
  proof (cases "i < length messages \<and> 0 < b")
    case False
    with "1.prems" show ?thesis by (auto simp: publish_batches.simps [of h c b messages i])
  next
    case True
    let ?batch = "take b (drop i messages)"
    obtain r n1 where p: "publishBatch h c ?batch n = (r, n1)" by (cases "publishBatch h c ?batch n")
    have rq: "requested_messages (trace n1) = requested_messages (trace n) @ ?batch"
      by (rule publishBatch_requested [OF p])
    have sub: "set ?batch \<subseteq> set messages"
      by (meson set_drop_subset set_take_subset subset_trans)
    show ?thesis
    proof (cases r)
      case (Inl err)
      with "1.prems" True p have "n' = n1" by (simp add: publish_batches.simps [of h c b messages i])
      with rq sub show ?thesis by auto
    next
      case (Inr u)
      with "1.prems" True p
      have rec: "publish_batches h c b messages (i + b)
                   (mt\<lparr>batchesSent := batchesSent mt + 1,
                       totalMessagesPublished := totalMessagesPublished mt + int (length ?batch)\<rparr>) n1
                 = (res, mt', n')"
        by (simp add: publish_batches.simps [of h c b messages i])
      have "set (requested_messages (trace n')) \<subseteq> set (requested_messages (trace n1)) \<union> set messages"
        using "1.IH" [OF True refl p [symmetric] Inr rec] .
      with rq sub show ?thesis by auto
    qed
  qed
qed

lemma collectUMHMessages_valid:
  "message \<in> set (collectUMHMessages Date_parse roster allReadings) \<Longrightarrow>
     \<exists>m reading. message = convertToUMHMessage Date_parse (with_machine m reading)
        \<and> valid (validateUMHMessage message)"
  by (auto simp: collectUMHMessages_def validated_message_def Let_def split: option.splits if_splits)

lemma tick_requested:
  assumes "UMHSimulationManager_publishSensorData envs Date_parse now h roster mgr n = (mgr', n')"
  shows "set (requested_messages (trace n')) \<subseteq> set (requested_messages (trace n))
           \<union> set (collectUMHMessages Date_parse roster
                    (fst (generateOperationalReadings envs roster (dataFactory mgr))))"
proof (cases "umhClient mgr")
  case None
  with assms show ?thesis by (auto simp: UMHSimulationManager_publishSensorData_def)
next
  case (Some c)
  show ?thesis
  proof (cases "isRunning mgr")
    case False
    with assms Some show ?thesis by (auto simp: UMHSimulationManager_publishSensorData_def)
  next
    case True
    obtain allReadings gens where
      g: "generateOperationalReadings envs roster (dataFactory mgr) = (allReadings, gens)"
      by (cases "generateOperationalReadings envs roster (dataFactory mgr)")
    let ?msgs = "collectUMHMessages Date_parse roster allReadings"
    let ?b = "int_or (batchSize (config mgr)) 1"
    let ?sent = "if ?msgs = [] then (None, metrics mgr, n)
                 else if 1 < ?b \<and> ?b < int (length ?msgs)
                 then publish_batches h c (nat ?b) ?msgs 0 (metrics mgr) n
                 else publish_each h c ?msgs (metrics mgr) n"
    obtain r mt n1 where s: "?sent = (r, mt, n1)" by (cases ?sent)
    have n1: "n' = n1"
      using assms Some True g s
      by (auto simp: UMHSimulationManager_publishSensorData_def Let_def split: option.splits)
    have "set (requested_messages (trace n1)) \<subseteq> set (requested_messages (trace n)) \<union> set ?msgs"
      using s publish_batches_requested publish_each_requested
      by (auto split: if_splits)
    with n1 g show ?thesis by simp
  qed
qed

section \<open>Properties of the retry loop\<close>

text \<open>The attempts of a run are the requests it makes: at most the ceiling.\<close>

lemma publish_loop_calls:
  "publish_loop h c m a le n = (res, n') \<Longrightarrow>
     calls n \<le> calls n' \<and> calls n' \<le> calls n + nat (retries c + 1 - a)
     \<and> (a \<le> retries c \<longrightarrow> calls n < calls n')"
proof (induction "nat (retries c + 1 - a)" arbitrary: a le n)
  case 0
  then have "\<not> a \<le> retries c" by simp
  with "0.prems" show ?case by (simp add: publish_loop_done)
next
  case (Suc d)
  then have a: "a \<le> retries c" by simp
  show ?case
  proof (cases "h (calls n) (Post_data m)")
    case None
    with Suc.prems a show ?thesis by (auto simp: publish_loop_ok)
  next
    case (Some e)
    let ?n2 = "\<lparr>calls = calls n + 1,
                trace = trace n @ Rejected (Post_data m) e
                          # (if a < retries c then [Waited (backoff_delay a)] else [])\<rparr>"
    have rec: "publish_loop h c m (a + 1) (Some e) ?n2 = (res, n')"
      using Suc.prems a Some by (simp add: publish_loop_retry)
    have d: "d = nat (retries c + 1 - (a + 1))" using Suc.hyps(2) by simp
    from Suc.hyps(1) [OF d rec] a show ?thesis by auto
  qed
qed

lemma publish_loop_waits:
  "publish_loop h c m a le n = (res, n') \<Longrightarrow>
     waits (trace n') =
       waits (trace n) @ map (\<lambda>k. backoff_delay (a + int k)) [0..<calls n' - calls n - 1]"
proof (induction "nat (retries c + 1 - a)" arbitrary: a le n)
  case 0
  then have "\<not> a \<le> retries c" by simp
  with "0.prems" show ?case by (simp add: publish_loop_done)
next
  case (Suc d)
  then have a: "a \<le> retries c" by simp
  show ?case
  proof (cases "h (calls n) (Post_data m)")
    case None
    with Suc.prems a show ?thesis by (auto simp: publish_loop_ok)
  next
    case (Some e)
    let ?n2 = "\<lparr>calls = calls n + 1,
                trace = trace n @ Rejected (Post_data m) e
                          # (if a < retries c then [Waited (backoff_delay a)] else [])\<rparr>"
    have rec: "publish_loop h c m (a + 1) (Some e) ?n2 = (res, n')"
      using Suc.prems a Some by (simp add: publish_loop_retry)
    have d: "d = nat (retries c + 1 - (a + 1))" using Suc.hyps(2) by simp
    note IH = Suc.hyps(1) [OF d rec]
    note cs = publish_loop_calls [OF rec]
    show ?thesis
    proof (cases "a < retries c")
      case True
      then have lt: "calls n + 1 < calls n'" using cs by simp
      define J where "J = calls n' - calls n - 2"
      have e1: "calls n' - calls n - 1 = Suc J" and e2: "calls n' - calls ?n2 - 1 = J"
        using lt by (simp_all add: J_def)
      have IH': "waits (trace n') =
                   waits (trace ?n2) @ map (\<lambda>k. backoff_delay (a + 1 + int k)) [0..<J]"
        using IH unfolding e2 .
      have w2: "waits (trace ?n2) = waits (trace n) @ [backoff_delay a]"
        using True by simp
      have sh: "(\<lambda>k. backoff_delay (a + int (Suc k))) = (\<lambda>k. backoff_delay (a + 1 + int k))"
        by (rule ext) (simp add: add.assoc)
      have "map (\<lambda>k. backoff_delay (a + int k)) [0..<Suc J]
              = backoff_delay a # map (\<lambda>k. backoff_delay (a + 1 + int k)) [0..<J]"
        unfolding map_upt_Suc sh by simp
      then show ?thesis unfolding e1 IH' w2 by simp
    next
      case False
      with a have "\<not> a + 1 \<le> retries c" by simp
      with rec have "n' = ?n2" by (simp add: publish_loop_done)
      with False show ?thesis by simp
    qed
  qed
qed


lemma publish_loop_fails_iff:
  "publish_loop h c m a le n = (res, n') \<Longrightarrow>
     isl res \<longleftrightarrow> (\<forall>k < nat (retries c + 1 - a). h (calls n + k) (Post_data m) \<noteq> None)"
proof (induction "nat (retries c + 1 - a)" arbitrary: a le n)
  case 0
  then have "\<not> a \<le> retries c" by simp
  with "0.prems" "0.hyps" show ?case by (auto simp: publish_loop_done)
next
  case (Suc d)
  then have a: "a \<le> retries c" by simp
  show ?case
  proof (cases "h (calls n) (Post_data m)")
    case None
    have "0 < nat (retries c + 1 - a)" using a by simp
    with None have "\<not> (\<forall>k < nat (retries c + 1 - a). h (calls n + k) (Post_data m) \<noteq> None)"
      by (metis add.right_neutral)
    with Suc.prems a None show ?thesis by (auto simp: publish_loop_ok)
  next
    case (Some e)
    let ?n2 = "\<lparr>calls = calls n + 1,
                trace = trace n @ Rejected (Post_data m) e
                          # (if a < retries c then [Waited (backoff_delay a)] else [])\<rparr>"
    have rec: "publish_loop h c m (a + 1) (Some e) ?n2 = (res, n')"
      using Suc.prems a Some by (simp add: publish_loop_retry)
    have d: "d = nat (retries c + 1 - (a + 1))" using Suc.hyps(2) by simp
    have IH: "isl res \<longleftrightarrow> (\<forall>k < d. h (calls n + 1 + k) (Post_data m) \<noteq> None)"
      using Suc.hyps(1) [OF d rec] d by simp
    have "(\<forall>k < Suc d. h (calls n + k) (Post_data m) \<noteq> None)
            \<longleftrightarrow> (\<forall>k < d. h (calls n + 1 + k) (Post_data m) \<noteq> None)"
    proof
      assume all: "\<forall>k < Suc d. h (calls n + k) (Post_data m) \<noteq> None"
      show "\<forall>k < d. h (calls n + 1 + k) (Post_data m) \<noteq> None"
      proof (intro allI impI)
        fix k assume "k < d"
        then have "Suc k < Suc d" by simp
        with all have "h (calls n + Suc k) (Post_data m) \<noteq> None" by blast
        then show "h (calls n + 1 + k) (Post_data m) \<noteq> None" by simp
      qed
    next
      assume all: "\<forall>k < d. h (calls n + 1 + k) (Post_data m) \<noteq> None"
      show "\<forall>k < Suc d. h (calls n + k) (Post_data m) \<noteq> None"
      proof (intro allI impI)
        fix k assume k: "k < Suc d"
        show "h (calls n + k) (Post_data m) \<noteq> None"
        proof (cases k)
          case 0
          with Some show ?thesis by simp
        next
          case (Suc k')
          with k all have "h (calls n + 1 + k') (Post_data m) \<noteq> None" by simp
          with Suc show ?thesis by simp
        qed
      qed
    qed
    with IH Suc.hyps(2) show ?thesis by simp
  qed
qed

lemma publish_loop_failure_message:
  "publish_loop h c m a le n = (Inl msg, n') \<Longrightarrow>
     msg = failure_message (retries c) (if a \<le> retries c then h (calls n' - 1) (Post_data m) else le)
     \<and> calls n' = calls n + nat (retries c + 1 - a)"
proof (induction "nat (retries c + 1 - a)" arbitrary: a le n)
  case 0
  then have "\<not> a \<le> retries c" by simp
  with "0.prems" show ?case by (auto simp: publish_loop_done)
next
  case (Suc d)
  then have a: "a \<le> retries c" by simp
  show ?case
  proof (cases "h (calls n) (Post_data m)")
    case None
    with Suc.prems a show ?thesis by (auto simp: publish_loop_ok)
  next
    case (Some e)
    let ?n2 = "\<lparr>calls = calls n + 1,
                trace = trace n @ Rejected (Post_data m) e
                          # (if a < retries c then [Waited (backoff_delay a)] else [])\<rparr>"
    have rec: "publish_loop h c m (a + 1) (Some e) ?n2 = (Inl msg, n')"
      using Suc.prems a Some by (simp add: publish_loop_retry)
    have d: "d = nat (retries c + 1 - (a + 1))" using Suc.hyps(2) by simp
    note IH = Suc.hyps(1) [OF d rec]
    show ?thesis
    proof (cases "a + 1 \<le> retries c")
      case True
      with IH a show ?thesis by auto
    next
      case False
      with rec have "n' = ?n2" by (simp add: publish_loop_done)
      with IH False a Some show ?thesis by auto
    qed
  qed
qed

lemma publish_loop_delivered:
  "publish_loop h c m a le n = (res, n') \<Longrightarrow>
     delivered_messages (trace n') = delivered_messages (trace n) @ (if isl res then [] else [m])"
proof (induction "nat (retries c + 1 - a)" arbitrary: a le n)
  case 0
  then have "\<not> a \<le> retries c" by simp
  with "0.prems" show ?case by (auto simp: publish_loop_done)
next
  case (Suc d)
  then have a: "a \<le> retries c" by simp
  show ?case
  proof (cases "h (calls n) (Post_data m)")
    case None
    with Suc.prems a show ?thesis by (auto simp: publish_loop_ok)
  next
    case (Some e)
    let ?n2 = "\<lparr>calls = calls n + 1,
                trace = trace n @ Rejected (Post_data m) e
                          # (if a < retries c then [Waited (backoff_delay a)] else [])\<rparr>"
    have rec: "publish_loop h c m (a + 1) (Some e) ?n2 = (res, n')"
      using Suc.prems a Some by (simp add: publish_loop_retry)
    have d: "d = nat (retries c + 1 - (a + 1))" using Suc.hyps(2) by simp
    from Suc.hyps(1) [OF d rec] show ?thesis by simp
  qed
qed

lemma backoff_waits:
  "map (\<lambda>k. backoff_delay (1 + int k)) [0..<j - 1] = map (\<lambda>k. min (1000 * 2 ^ (k - 1)) 5000) [1..<j]"
proof -
  have "[1..<j] = map Suc [0..<j - 1]"
    by (cases j) (simp_all add: map_Suc_upt del: upt_Suc)
  then show ?thesis by (simp add: backoff_delay_def comp_def nat_add_distrib)
qed

text \<open>
  C3.  \<open>publish\<close> makes at most \<open>retries\<close> attempts (3 when the option is not given), and
  the waits of a call are, in order, \<open>min (1000 * 2 ^ (k - 1)) 5000\<close> milliseconds after the
  failed attempt \<open>k\<close>, for every attempt but the last one made.  With a ceiling of 3, a
  call whose first two attempts fail and whose third succeeds returns normally after
  exactly the events: rejected, wait 1000, rejected, wait 2000, delivered.  The call
  fails exactly when all the attempts up to the ceiling fail, its error then carries
  the message of the last attempt's error, and the message is delivered once when the
  call succeeds and not at all when it fails.
\<close>

theorem publish_retry_policy:
  assumes "publish h c message n = (res, n')"
  shows "calls n' - calls n \<le> nat (retries c)
       \<and> waits (trace n') =
           waits (trace n) @ map (\<lambda>k. min (1000 * 2 ^ (k - 1)) 5000) [1..<calls n' - calls n]
       \<and> retries (new_UMHClient \<lparr>opt_umhCoreUrl = url, opt_timeout = t, opt_retries = None\<rparr>) = 3
       \<and> (retries c = 3 \<and> h (calls n) (Post_data message) = Some e1
            \<and> h (calls n + 1) (Post_data message) = Some e2
            \<and> h (calls n + 2) (Post_data message) = None
          \<longrightarrow> res = Inr ()
              \<and> trace n' = trace n @ [Rejected (Post_data message) e1, Waited 1000,
                                       Rejected (Post_data message) e2, Waited 2000,
                                       Delivered (Post_data message)])
       \<and> (isl res \<longleftrightarrow> (\<forall>k < nat (retries c). h (calls n + k) (Post_data message) \<noteq> None))
       \<and> (\<forall>msg. res = Inl msg \<and> 1 \<le> retries c \<longrightarrow>
            (\<exists>e. h (calls n + nat (retries c) - 1) (Post_data message) = Some e
               \<and> msg = ''Failed to publish to UMH-Core after '' @ string_of_int (retries c)
                         @ '' attempts: '' @ e))
       \<and> delivered_messages (trace n') =
           delivered_messages (trace n) @ (if isl res then [] else [message])"
proof -
  have loop: "publish_loop h c message 1 None n = (res, n')"
    using assms by (simp add: publish_def)
  have p1: "calls n' - calls n \<le> nat (retries c)"
    using publish_loop_calls [OF loop] by auto
  have p2: "waits (trace n') =
              waits (trace n) @ map (\<lambda>k. min (1000 * 2 ^ (k - 1)) 5000) [1..<calls n' - calls n]"
    using publish_loop_waits [OF loop] unfolding backoff_waits [of "calls n' - calls n"] by simp
  have p3: "retries (new_UMHClient \<lparr>opt_umhCoreUrl = url, opt_timeout = t, opt_retries = None\<rparr>) = 3"
    by (simp add: new_UMHClient_def int_or_def)
  have p4: "res = Inr ()
              \<and> trace n' = trace n @ [Rejected (Post_data message) e1, Waited 1000,
                                       Rejected (Post_data message) e2, Waited 2000,
                                       Delivered (Post_data message)]"
    if "retries c = 3" "h (calls n) (Post_data message) = Some e1"
       "h (calls n + 1) (Post_data message) = Some e2" "h (calls n + 2) (Post_data message) = None"
    using loop that
    by (auto simp: publish_loop_retry publish_loop_ok backoff_delay_def)
  have p5: "isl res \<longleftrightarrow> (\<forall>k < nat (retries c). h (calls n + k) (Post_data message) \<noteq> None)"
    using publish_loop_fails_iff [OF loop] by simp
  have p6: "\<exists>e. h (calls n + nat (retries c) - 1) (Post_data message) = Some e
               \<and> msg = ''Failed to publish to UMH-Core after '' @ string_of_int (retries c)
                         @ '' attempts: '' @ e"
    if "res = Inl msg" "1 \<le> retries c" for msg
  proof -
    from loop that(1) have l: "publish_loop h c message 1 None n = (Inl msg, n')" by simp
    from publish_loop_failure_message [OF l] that(2)
    have m: "msg = failure_message (retries c) (h (calls n' - 1) (Post_data message))"
      and c: "calls n' = calls n + nat (retries c)" by simp_all
    have "isl res" using that(1) by simp
    moreover have "nat (retries c) - 1 < nat (retries c)" using that(2) by simp
    ultimately have "h (calls n + (nat (retries c) - 1)) (Post_data message) \<noteq> None"
      using p5 by blast
    then obtain e where e: "h (calls n + (nat (retries c) - 1)) (Post_data message) = Some e"
      by blast
    have idx: "calls n' - 1 = calls n + (nat (retries c) - 1)" "calls n + nat (retries c) - 1 = calls n + (nat (retries c) - 1)"
      using c that(2) by simp_all
    show ?thesis using m e idx by (simp add: failure_message_def)
  qed
  have p7: "delivered_messages (trace n') =
              delivered_messages (trace n) @ (if isl res then [] else [message])"
    by (rule publish_loop_delivered [OF loop])
  show ?thesis using p1 p2 p3 p4 p5 p6 p7 by blast
qed

theorem publish_retry_policy_witness:
  "fst (publish (\<lambda>k rq. if k < 2 then Some ''ECONNRESET'' else None)
          (new_UMHClient \<lparr>opt_umhCoreUrl = ''http://umh-core:8090'', opt_timeout = None,
                          opt_retries = None\<rparr>)
          (example_message ''cnc-001'') idle_net) = Inr ()
   \<and> trace (snd (publish (\<lambda>k rq. if k < 2 then Some ''ECONNRESET'' else None)
          (new_UMHClient \<lparr>opt_umhCoreUrl = ''http://umh-core:8090'', opt_timeout = None,
                          opt_retries = None\<rparr>)
          (example_message ''cnc-001'') idle_net))
       = [Rejected (Post_data (example_message ''cnc-001'')) ''ECONNRESET'', Waited 1000,
          Rejected (Post_data (example_message ''cnc-001'')) ''ECONNRESET'', Waited 2000,
          Delivered (Post_data (example_message ''cnc-001''))]"
proof -
  let ?h = "\<lambda>k (rq :: request). if k < (2 :: nat) then Some ''ECONNRESET'' else None"
  let ?c = "new_UMHClient \<lparr>opt_umhCoreUrl = ''http://umh-core:8090'', opt_timeout = None,
                           opt_retries = None\<rparr>"
  obtain res n' where p: "publish ?h ?c (example_message ''cnc-001'') idle_net = (res, n')"
    by (cases "publish ?h ?c (example_message ''cnc-001'') idle_net")
  have r: "retries ?c = 3" by (simp add: new_UMHClient_def int_or_def)
  have c: "calls idle_net = 0" and t: "trace idle_net = []" by (simp_all add: idle_net_def)
  from publish_retry_policy [OF p, of "''http://umh-core:8090''" None "''ECONNRESET''" "''ECONNRESET''"]
  have "res = Inr () \<and> trace n' =
          trace idle_net @ [Rejected (Post_data (example_message ''cnc-001'')) ''ECONNRESET'', Waited 1000,
                            Rejected (Post_data (example_message ''cnc-001'')) ''ECONNRESET'', Waited 2000,
                            Delivered (Post_data (example_message ''cnc-001''))]"
    using r c by simp
  with p t show ?thesis by simp
qed

section \<open>The example tick\<close>

lemma factory_fold_list:
  "distinct (map fst acc @ map machine_id ms) \<Longrightarrow>
     fold (\<lambda>m gs. Map_set (machine_id m) (new_CNCDataGenerator (envs (machine_id m)) m) gs) ms acc
       = acc @ map (\<lambda>m. (machine_id m, new_CNCDataGenerator (envs (machine_id m)) m)) ms"
proof (induction ms arbitrary: acc)
  case Nil
  then show ?case by simp
next
  case (Cons m ms)
  have fresh: "machine_id m \<notin> fst ` set acc" using Cons.prems by auto
  show ?case
    using Cons.prems by (simp add: Map_set_fresh [OF fresh] Cons.IH)
qed

lemma factory_list:
  "distinct (map machine_id roster) \<Longrightarrow>
     new_CNCDataGeneratorFactory envs roster
       = map (\<lambda>m. (machine_id m, new_CNCDataGenerator (envs (machine_id m)) m)) roster"
  using factory_fold_list [of "[]" roster envs] by (simp add: new_CNCDataGeneratorFactory_def)

lemma readings_hd:
  "\<exists>rest. fst (generateSensorReadings e g) =
     \<lparr>topicPath = (if is_umh_format (env_or (OUTPUT_FORMAT e) ''uns'')
                   then ''umh/v1/'' @ enterprise (machine g) @ ''/'' @ site (machine g) @ ''/''
                          @ area (machine g) @ ''/'' @ work_cell (machine g) @ ''/''
                          @ machine_id (machine g) @ ''/_raw''
                   else enterprise (machine g) @ ''/'' @ site (machine g) @ ''/''
                          @ area (machine g) @ ''/'' @ work_cell (machine g) @ ''/''
                          @ machine_id (machine g) @ ''/info/sensors'') @ ''/spindle-speed'',
      payload = generateSpindleSpeedPayload e (Date_now e In_generateSensorReadings)
                  (updateCycle (Date_now e In_updateCycle) (Date_now e In_advanceCyclePhase)
                     (Math_random e In_advanceCyclePhase_branch)
                     (Math_random e In_advanceCyclePhase) g)\<rparr> # rest"
proof -
  have m: "machine (updateCycle a b c d g) = machine g" for a b c d
    by (cases "phase (currentCycle g)") (simp_all add: updateCycle_def advanceCyclePhase_def Let_def)
  show ?thesis
    by (simp add: generateSensorReadings_def Let_def m)
qed

lemma readings_hd_valid:
  assumes "Date_parse (toISOString (Date_now e In_generateSensorReadings)) = Some t" and "t \<noteq> 0"
  shows "validated_message Date_parse m (hd (fst (generateSensorReadings e g)))
           = [convertToUMHMessage Date_parse (with_machine m (hd (fst (generateSensorReadings e g))))]"
proof -
  obtain rest tp where r: "fst (generateSensorReadings e g) =
     \<lparr>topicPath = tp @ ''/spindle-speed'',
      payload = generateSpindleSpeedPayload e (Date_now e In_generateSensorReadings)
                  (updateCycle (Date_now e In_updateCycle) (Date_now e In_advanceCyclePhase)
                     (Math_random e In_advanceCyclePhase_branch)
                     (Math_random e In_advanceCyclePhase) g)\<rparr> # rest"
    using readings_hd [of e g] by blast
  have x: "extractSensorType (tp @ ''/spindle-speed'') = ''spindle-speed''"
    using extractSensorType_suffix [of "''spindle-speed''" tp] by simp
  have "valid (validateUMHMessage (convertToUMHMessage Date_parse
          (with_machine m (hd (fst (generateSensorReadings e g))))))"
    using assms
    by (simp add: valid_produced_iff r x generateSpindleSpeedPayload_def Let_def num_def getTime_def)
  then show ?thesis by (simp add: validated_message_def)
qed


lemma find_in_roster:
  "distinct (map machine_id roster) \<Longrightarrow> m \<in> set roster \<Longrightarrow>
     find (\<lambda>m'. machine_id m' = machine_id m) roster = Some m"
  by (induction roster) (auto simp: image_iff)

lemma map_of_factory:
  "distinct (map machine_id roster) \<Longrightarrow> m \<in> set roster \<Longrightarrow>
     map_of (map (\<lambda>m. (machine_id m, G m)) roster) (machine_id m) = Some (G m)"
  by (induction roster) (auto simp: image_iff)

lemma collect_of_roster:
  assumes "distinct (map machine_id roster)" and "set ms \<subseteq> set roster"
  shows "collectUMHMessages Date_parse roster (map (\<lambda>m. (machine_id m, R m)) ms)
           = concat (map (\<lambda>m. concat (map (validated_message Date_parse m) (R m))) ms)"
  using assms(2)
proof (induction ms)
  case Nil
  then show ?case by (simp add: collectUMHMessages_def)
next
  case (Cons m ms)
  then have "m \<in> set roster" and sub: "set ms \<subseteq> set roster" by simp_all
  from find_in_roster [OF assms(1) this(1)] Cons.IH [OF sub]
  show ?case by (simp add: collectUMHMessages_def)
qed

lemma example_roster_shape:
  "\<exists>m1 m2 ms m10. example_roster = m1 # m2 # ms @ [m10]
      \<and> machine_id m1 = ''cnc-001'' \<and> machine_id m2 = ''cnc-002''
      \<and> filter (\<lambda>m. is_operational example_roster (machine_id m)) example_roster = m1 # m2 # ms"
  by (simp add: example_roster_def generateMachineConfigs_def getLocationConfig_def env_or_def
      mk_machine_def is_operational_def)


lemma example_roster_distinct: "distinct (map machine_id example_roster)"
  by (simp add: example_roster_def roster_machine_ids)

lemma toISOString_4000: "toISOString 4000 = ''1970-01-01T00:00:04.000Z''"
  by code_simp

lemma example_parse_stamp:
  "example_parse (toISOString (Date_now (example_env 4000 r) In_generateSensorReadings)) = Some 4000"
  by (simp add: example_env_def toISOString_4000 example_parse_def)

text \<open>
  The messages of the example tick start with the message of the first reading of
  \<open>cnc-001\<close>, and the message of the first reading of \<open>cnc-002\<close> comes later.
\<close>

lemma example_tick_messages_shape:
  "\<exists>rest. example_tick_messages = example_message ''cnc-001'' # rest
          \<and> example_message ''cnc-002'' \<in> set rest"
proof -
  let ?G = "new_CNCDataGenerator (example_env 1000 (1/2))"
  let ?e = "example_env 4000 (1/4)"
  let ?R = "\<lambda>m. fst (generateSensorReadings ?e (?G m))"
  let ?V = "\<lambda>m. concat (map (validated_message example_parse m) (?R m))"
  obtain m1 m2 ms m10 where
    shape: "example_roster = m1 # m2 # ms @ [m10]"
    and id1: "machine_id m1 = ''cnc-001''" and id2: "machine_id m2 = ''cnc-002''"
    and ops: "filter (\<lambda>m. is_operational example_roster (machine_id m)) example_roster = m1 # m2 # ms"
    using example_roster_shape by blast
  note d = example_roster_distinct
  have fac: "dataFactory example_manager = map (\<lambda>m. (machine_id m, ?G m)) example_roster"
    by (simp add: example_manager_def factory_list [OF d])
  have dk: "distinct (map fst (dataFactory example_manager))"
    using d by (simp add: fac comp_def)
  have all: "fst (generateOperationalReadings example_envs example_roster (dataFactory example_manager))
               = map (\<lambda>m. (machine_id m, ?R m)) (m1 # m2 # ms)"
  proof -
    have f: "filter (\<lambda>(machineId, g). is_operational example_roster machineId)
               (map (\<lambda>m. (machine_id m, ?G m)) example_roster)
             = map (\<lambda>m. (machine_id m, ?G m)) (m1 # m2 # ms)"
      unfolding ops [symmetric] by (simp add: filter_map comp_def)
    have "fst (generateOperationalReadings example_envs example_roster (dataFactory example_manager))
            = map (\<lambda>(machineId, g). (machineId, fst (generateSensorReadings (example_envs machineId) g)))
                (filter (\<lambda>(machineId, g). is_operational example_roster machineId)
                   (dataFactory example_manager))"
      by (simp add: operational_readings [OF dk])
    also have "\<dots> = map (\<lambda>m. (machine_id m, ?R m)) (m1 # m2 # ms)"
      unfolding fac f by (simp add: example_envs_def)
    finally show ?thesis .
  qed
  have sub: "set (m1 # m2 # ms) \<subseteq> set example_roster" by (auto simp: shape)
  have msgs: "example_tick_messages = ?V m1 @ ?V m2 @ concat (map ?V ms)"
    unfolding example_tick_messages_def all collect_of_roster [OF d sub] by simp
  have hd_tl: "?R m = hd (?R m) # tl (?R m)" for m
    using readings_hd [of ?e "?G m"] by auto
  have v: "validated_message example_parse m (hd (?R m))
             = [convertToUMHMessage example_parse (with_machine m (hd (?R m)))]" for m
    by (rule readings_hd_valid [of example_parse ?e 4000, OF example_parse_stamp]) simp
  have V: "?V m = convertToUMHMessage example_parse (with_machine m (hd (?R m)))
                    # concat (map (validated_message example_parse m) (tl (?R m)))" for m
    by (subst hd_tl) (simp add: v)
  have in1: "m1 \<in> set example_roster" and in2: "m2 \<in> set example_roster" by (simp_all add: shape)
  have msg: "example_message (machine_id m)
               = convertToUMHMessage example_parse (with_machine m (hd (?R m)))"
    if "m \<in> set example_roster" for m
    using find_in_roster [OF d that] map_of_factory [OF d that, of ?G]
    by (simp add: example_message_def example_reading_def fac)
  have "example_tick_messages =
          example_message ''cnc-001''
            # (concat (map (validated_message example_parse m1) (tl (?R m1)))
               @ (example_message ''cnc-002''
                    # concat (map (validated_message example_parse m2) (tl (?R m2))))
               @ concat (map ?V ms))"
    using msg [OF in1] msg [OF in2] by (simp add: msgs V [of m1] V [of m2] id1 id2)
  then show ?thesis by auto
qed


lemma failing_publish:
  assumes "retries c = 3"
  shows "publish failing_http c m idle_net =
     (Inl ''Failed to publish to UMH-Core after 3 attempts: ETIMEDOUT'',
      \<lparr>calls = 3,
       trace = [Rejected (Post_data m) ''ETIMEDOUT'', Waited 1000,
                Rejected (Post_data m) ''ETIMEDOUT'', Waited 2000,
                Rejected (Post_data m) ''ETIMEDOUT'']\<rparr>)"
  using assms
  by (simp add: publish_def publish_loop_retry publish_loop_done failing_http_def idle_net_def
      backoff_delay_def failure_message_def string_of_int_def string_of_nat.simps [of 3]
      digit_char_def)

lemma umh_tick_running:
  assumes "umhClient mgr = Some c" and "isRunning mgr"
      and "collectUMHMessages Date_parse roster
             (fst (generateOperationalReadings envs roster (dataFactory mgr))) = message # rest"
      and "batchSize (config mgr) = None"
      and "publish h c message n = (Inl err, n')"
  shows "UMHSimulationManager_publishSensorData envs Date_parse now h roster mgr n =
     (mgr\<lparr>dataFactory := snd (generateOperationalReadings envs roster (dataFactory mgr)),
          metrics := addError (''UMH publishing error: '' @ err) (metrics mgr)\<rparr>, n')"
  using assms
  by (simp add: UMHSimulationManager_publishSensorData_def Let_def case_prod_unfold int_or_def)

lemma failing_tick_result:
  "failing_tick =
     (example_manager
        \<lparr>dataFactory := snd (generateOperationalReadings example_envs example_roster
                                (dataFactory example_manager)),
         metrics := example_metrics
           \<lparr>error_list := [''UMH publishing error: Failed to publish to UMH-Core after 3 attempts: ETIMEDOUT'']\<rparr>\<rparr>,
      \<lparr>calls = 3,
       trace = [Rejected (Post_data (example_message ''cnc-001'')) ''ETIMEDOUT'', Waited 1000,
                Rejected (Post_data (example_message ''cnc-001'')) ''ETIMEDOUT'', Waited 2000,
                Rejected (Post_data (example_message ''cnc-001'')) ''ETIMEDOUT'']\<rparr>)"
proof -
  obtain rest where msgs: "example_tick_messages = example_message ''cnc-001'' # rest"
    using example_tick_messages_shape by blast
  let ?c = "new_UMHClient \<lparr>opt_umhCoreUrl = ''http://umh-core:8090'', opt_timeout = Some 10000,
                           opt_retries = Some 3\<rparr>"
  have c: "umhClient example_manager = Some ?c" and run: "isRunning example_manager"
    and b: "batchSize (config example_manager) = None"
    and mt: "metrics example_manager = example_metrics"
    by (simp_all add: example_manager_def)
  have r: "retries ?c = 3" by (simp add: new_UMHClient_def int_or_def)
  have "failing_tick =
     (example_manager
        \<lparr>dataFactory := snd (generateOperationalReadings example_envs example_roster
                                (dataFactory example_manager)),
         metrics := addError (''UMH publishing error: ''
                                @ ''Failed to publish to UMH-Core after 3 attempts: ETIMEDOUT'')
                      (metrics example_manager)\<rparr>,
      \<lparr>calls = 3,
       trace = [Rejected (Post_data (example_message ''cnc-001'')) ''ETIMEDOUT'', Waited 1000,
                Rejected (Post_data (example_message ''cnc-001'')) ''ETIMEDOUT'', Waited 2000,
                Rejected (Post_data (example_message ''cnc-001'')) ''ETIMEDOUT'']\<rparr>)"
    unfolding failing_tick_def
    by (rule umh_tick_running [OF c run msgs [unfolded example_tick_messages_def] b
          failing_publish [OF r]])
  then show ?thesis
    by (simp add: mt addError_def example_metrics_def)
qed


section \<open>The validation gate and the failure of a delivery\<close>

text \<open>
  What does hold of a failed delivery: the error log stays bounded, the tick ends
  normally and leaves the service running with its timer, so later ticks take place;
  and a start whose connection fails ends with the service not running.
\<close>

lemma addError_bounded:
  "length (error_list (addError err mt)) \<le> 10"
  by (simp add: addError_def Let_def)

lemma umh_tick_keeps_service:
  "isRunning (fst (UMHSimulationManager_publishSensorData envs Date_parse now h roster mgr n))
     = isRunning mgr
   \<and> publishTimer (fst (UMHSimulationManager_publishSensorData envs Date_parse now h roster mgr n))
     = publishTimer mgr
   \<and> umhClient (fst (UMHSimulationManager_publishSensorData envs Date_parse now h roster mgr n))
     = umhClient mgr"
  by (simp add: UMHSimulationManager_publishSensorData_def Let_def
      split: option.splits prod.splits)

lemma start_aborted_by_connection_failure:
  assumes "\<not> isRunning mgr" and "h (calls n) (Get ''/health'') = Some e1"
      and "h (calls n + 1) (Get ''/'') = Some e2"
  shows "fst (UMHSimulationManager_start h now mgr n) = Inl (''UMH-Core connection failed: '' @ e2)
       \<and> \<not> isRunning (fst (snd (UMHSimulationManager_start h now mgr n)))
       \<and> \<not> publishTimer (fst (snd (UMHSimulationManager_start h now mgr n)))"
  using assms
  by (simp add: UMHSimulationManager_start_def connect_def send_def Let_def)


text \<open>
  C4.  What the tick of the direct integration does when the delivery of one message
  fails for good.  In the example tick the first three requests fail and every later
  one would be answered.  The first message, of the machine \<open>cnc-001\<close>, uses up its
  three attempts; its failure is recorded in the errors of the metrics; and the tick
  ends there: the message of the machine \<open>cnc-002\<close>, which is among the messages of
  the tick, is never requested although its request would have been answered, no
  message is counted as published and \<open>activeMachines\<close> keeps its old value.  So the
  failure of one message is not local to it: it ends the deliveries of the tick.
\<close>

theorem failed_message_aborts_tick:
  "trace (snd failing_tick)
     = [Rejected (Post_data (example_message ''cnc-001'')) ''ETIMEDOUT'', Waited 1000,
        Rejected (Post_data (example_message ''cnc-001'')) ''ETIMEDOUT'', Waited 2000,
        Rejected (Post_data (example_message ''cnc-001'')) ''ETIMEDOUT'']
   \<and> example_message ''cnc-002'' \<in> set example_tick_messages
   \<and> example_message ''cnc-002'' \<notin> set (requested_messages (trace (snd failing_tick)))
   \<and> failing_http (calls (snd failing_tick)) (Post_data (example_message ''cnc-002'')) = None
   \<and> error_list (metrics (fst failing_tick))
       = [''UMH publishing error: Failed to publish to UMH-Core after 3 attempts: ETIMEDOUT'']
   \<and> activeMachines (metrics (fst failing_tick)) = 0
   \<and> totalMessagesPublished (metrics (fst failing_tick)) = 0"
proof -
  have t: "topic (example_message ''cnc-001'') \<noteq> topic (example_message ''cnc-002'')"
    by (simp add: example_message_def example_roster_def generateMachineConfigs_def
        getLocationConfig_def env_or_def mk_machine_def convertToUMHMessage_def with_machine_def
        Let_def buildUMHTopic_def UMH_DATA_CONTRACTS_RAW_def)
  then have ne: "example_message ''cnc-002'' \<noteq> example_message ''cnc-001''" by auto
  obtain rest where "example_tick_messages = example_message ''cnc-001'' # rest"
    and "example_message ''cnc-002'' \<in> set rest"
    using example_tick_messages_shape by blast
  then have m: "example_message ''cnc-002'' \<in> set example_tick_messages"
    by (metis list.set_intros(2))
  show ?thesis
    using ne m
    by (simp add: failing_tick_result requested_messages_def failing_http_def example_metrics_def)
qed

text \<open>
  C10.  \<open>validateUMHMessage\<close> rejects every message whose \<open>timestamp_ms\<close> is 0, with the
  error \<open>Payload missing or invalid timestamp_ms\<close>, although 0 is a finite number; so a
  reading whose timestamp is the epoch is dropped by the validation of the tick.
\<close>

theorem validateUMHMessage_rejects_timestamp_zero:
  "(umh_payload message = Some p \<and> timestamp_ms p = JNum (Fin 0) \<longrightarrow>
      \<not> valid (validateUMHMessage message)
      \<and> ''Payload missing or invalid timestamp_ms'' \<in> set (errors (validateUMHMessage message)))
   \<and> (Date_parse (timestamp (payload reading)) = Some 0 \<longrightarrow>
        validated_message Date_parse m reading = [])
   \<and> Number_isFinite (JNum (Fin 0))"
proof -
  have a: "\<not> valid (validateUMHMessage message)
      \<and> ''Payload missing or invalid timestamp_ms'' \<in> set (errors (validateUMHMessage message))"
    if "umh_payload message = Some p \<and> timestamp_ms p = JNum (Fin 0)"
    using that by (simp add: validateUMHMessage_def Let_def)
  have b: "validated_message Date_parse m reading = []"
    if "Date_parse (timestamp (payload reading)) = Some 0"
    using that by (simp add: validated_message_def valid_produced_iff getTime_def)
  show ?thesis using a b by simp
qed

theorem validateUMHMessage_rejects_timestamp_zero_witness:
  "\<not> valid (validateUMHMessage epoch_message)
   \<and> errors (validateUMHMessage epoch_message) = [''Payload missing or invalid timestamp_ms'']
   \<and> validated_message (\<lambda>_. Some 0) example_config (example_reading ''cnc-001'') = []"
proof -
  have p: "umh_payload epoch_message = Some \<lparr>umh_value = JNum (Fin 810), timestamp_ms = JNum (Fin 0)\<rparr>
           \<and> timestamp_ms \<lparr>umh_value = JNum (Fin 810), timestamp_ms = JNum (Fin 0)\<rparr> = JNum (Fin 0)"
    by (simp add: epoch_message_def)
  have e: "errors (validateUMHMessage epoch_message) = [''Payload missing or invalid timestamp_ms'']"
    by (simp add: validateUMHMessage_def epoch_message_def startsWith_def)
  show ?thesis
    using validateUMHMessage_rejects_timestamp_zero
            [of epoch_message "\<lparr>umh_value = JNum (Fin 810), timestamp_ms = JNum (Fin 0)\<rparr>"
                "\<lambda>_. Some 0" "example_reading ''cnc-001''" example_config] p e
    by simp
qed

text \<open>
  C2.  The validation rejects any message whose value is missing (\<open>undefined\<close> or
  \<open>null\<close>), whose \<open>timestamp_ms\<close> is no number or is \<open>NaN\<close>, or whose location path, tag
  name or topic is empty; a message that passes has a non-empty topic and a
  \<open>timestamp_ms\<close> that is a number and not \<open>NaN\<close>.  A message produced by
  \<open>convertToUMHMessage\<close> moreover fails the validation, and is dropped from the messages
  to send, when its \<open>timestamp_ms\<close> is no finite number; a produced message that passes
  is kept, and carries a non-empty topic and a finite \<open>timestamp_ms\<close>.  Every message
  that a tick requests to send, delivered or not, has passed the validation and
  carries both.
\<close>

theorem validation_gate:
  assumes "UMHSimulationManager_publishSensorData envs Date_parse now h roster mgr n = (mgr', n')"
      and "produced = convertToUMHMessage Date_parse (with_machine m reading)"
  shows "(message_value message = JUndefined \<or> message_value message = JNull
            \<or> \<not> is_number (message_timestamp_ms message)
            \<or> message_timestamp_ms message = JNum NaN
            \<or> message_location_path message = [] \<or> message_tag_name message = []
            \<or> topic message = []
          \<longrightarrow> \<not> valid (validateUMHMessage message))
       \<and> (valid (validateUMHMessage message)
          \<longrightarrow> topic message \<noteq> [] \<and> is_number (message_timestamp_ms message)
              \<and> message_timestamp_ms message \<noteq> JNum NaN)
       \<and> (message_value produced = JUndefined \<or> message_value produced = JNull
            \<or> \<not> Number_isFinite (message_timestamp_ms produced)
            \<or> message_location_path produced = [] \<or> message_tag_name produced = []
            \<or> topic produced = []
          \<longrightarrow> \<not> valid (validateUMHMessage produced) \<and> validated_message Date_parse m reading = [])
       \<and> (valid (validateUMHMessage produced)
          \<longrightarrow> validated_message Date_parse m reading = [produced] \<and> topic produced \<noteq> []
              \<and> Number_isFinite (message_timestamp_ms produced))
       \<and> (\<forall>sent \<in> set (requested_messages (trace n')) - set (requested_messages (trace n)).
            valid (validateUMHMessage sent) \<and> topic sent \<noteq> []
            \<and> Number_isFinite (message_timestamp_ms sent))"
proof -
  have g1: "\<not> valid (validateUMHMessage message)"
    if "message_value message = JUndefined \<or> message_value message = JNull
            \<or> \<not> is_number (message_timestamp_ms message)
            \<or> message_timestamp_ms message = JNum NaN
            \<or> message_location_path message = [] \<or> message_tag_name message = []
            \<or> topic message = []"
  proof -
    have "\<not> truthy (message_timestamp_ms message)" if "message_timestamp_ms message = JNum NaN"
      using that by simp
    with \<open>message_value message = JUndefined \<or> message_value message = JNull
            \<or> \<not> is_number (message_timestamp_ms message)
            \<or> message_timestamp_ms message = JNum NaN
            \<or> message_location_path message = [] \<or> message_tag_name message = []
            \<or> topic message = []\<close>
    show ?thesis using invalid_conditions [of message] by blast
  qed
  have g2: "topic message \<noteq> [] \<and> is_number (message_timestamp_ms message)
              \<and> message_timestamp_ms message \<noteq> JNum NaN"
    if "valid (validateUMHMessage message)"
    using g1 that by blast
  have a: "\<not> valid (validateUMHMessage produced) \<and> validated_message Date_parse m reading = []"
    if c: "message_value produced = JUndefined \<or> message_value produced = JNull
            \<or> \<not> Number_isFinite (message_timestamp_ms produced)
            \<or> message_location_path produced = [] \<or> message_tag_name produced = []
            \<or> topic produced = []"
  proof -
    have "\<not> truthy (message_timestamp_ms produced)"
      if "\<not> Number_isFinite (message_timestamp_ms produced)"
      using that produced_not_finite [of Date_parse "with_machine m reading"] assms(2) by simp
    with c have "\<not> valid (validateUMHMessage produced)"
      using invalid_conditions [of produced] by blast
    then show ?thesis using assms(2) by (simp add: validated_message_def)
  qed
  have b: "validated_message Date_parse m reading = [produced] \<and> topic produced \<noteq> []
              \<and> Number_isFinite (message_timestamp_ms produced)"
    if "valid (validateUMHMessage produced)"
    using that assms(2) valid_produced_finite [of Date_parse "with_machine m reading"]
      produced_topic [of Date_parse "with_machine m reading"]
    by (simp add: validated_message_def)
  have c: "valid (validateUMHMessage sent) \<and> topic sent \<noteq> []
            \<and> Number_isFinite (message_timestamp_ms sent)"
    if "sent \<in> set (requested_messages (trace n')) - set (requested_messages (trace n))"
    for sent
  proof -
    from that tick_requested [OF assms(1)]
    have "sent \<in> set (collectUMHMessages Date_parse roster
                       (fst (generateOperationalReadings envs roster (dataFactory mgr))))"
      by blast
    from collectUMHMessages_valid [OF this] obtain m' r' where
      "sent = convertToUMHMessage Date_parse (with_machine m' r')"
      and "valid (validateUMHMessage sent)" by blast
    then show ?thesis
      using valid_produced_finite [of Date_parse "with_machine m' r'"]
        produced_topic [of Date_parse "with_machine m' r'"] by simp
  qed
  show ?thesis using g1 g2 a b c by blast
qed

theorem validation_gate_witness:
  "valid (validateUMHMessage (example_message ''cnc-001''))
   \<and> topic (example_message ''cnc-001'') \<noteq> []
   \<and> is_number (message_timestamp_ms (example_message ''cnc-001''))
   \<and> Number_isFinite (message_timestamp_ms (example_message ''cnc-001''))
   \<and> message_timestamp_ms (convertToUMHMessage example_parse
                                (with_machine example_config unparsable_reading)) = JNum NaN
   \<and> \<not> valid (validateUMHMessage (convertToUMHMessage example_parse
                                      (with_machine example_config unparsable_reading)))
   \<and> validated_message example_parse example_config unparsable_reading = []"
proof -
  let ?bad = "convertToUMHMessage example_parse (with_machine example_config unparsable_reading)"
  have t: "UMHSimulationManager_publishSensorData example_envs example_parse 4000 failing_http
             example_roster example_manager idle_net = (fst failing_tick, snd failing_tick)"
    by (simp add: failing_tick_def)
  have nan: "message_timestamp_ms ?bad = JNum NaN"
    by (simp add: produced_timestamp with_machine_def unparsable_reading_def example_parse_def
        getTime_def)
  then have nonfinite: "\<not> Number_isFinite (message_timestamp_ms ?bad)" by simp
  have sent: "example_message ''cnc-001''
                \<in> set (requested_messages (trace (snd failing_tick)))
                    - set (requested_messages (trace idle_net))"
    by (simp add: failing_tick_result requested_messages_def idle_net_def)
  from validation_gate [OF t refl, where m = example_config and reading = unparsable_reading
                          and message = ?bad] nan nonfinite sent
  have bad: "\<not> valid (validateUMHMessage ?bad)
             \<and> validated_message example_parse example_config unparsable_reading = []"
    and good: "valid (validateUMHMessage (example_message ''cnc-001''))
               \<and> Number_isFinite (message_timestamp_ms (example_message ''cnc-001''))"
    by blast+
  from validation_gate [OF t refl, where m = example_config and reading = unparsable_reading
                          and message = "example_message ''cnc-001''"] good
  have "topic (example_message ''cnc-001'') \<noteq> []
        \<and> is_number (message_timestamp_ms (example_message ''cnc-001''))"
    by blast
  with bad good nan show ?thesis by simp
qed

section \<open>Properties of the readings\<close>

text \<open>While the phase lasts, the tool number is the index of the specification.\<close>

lemma toolNumber_within_phase:
  assumes "phase (currentCycle g) = P_machining" and "duration (currentCycle g) = Fin d"
      and "0 < d" and "startTime (currentCycle g) \<le> now"
      and "real_of_int (now - startTime (currentCycle g)) < d * 1000"
  shows "toolNumber now g
           = Fin (of_int (spec_tool_index (real_of_int (now - startTime (currentCycle g)) / (d * 1000))))
       \<and> spec_tool_index (real_of_int (now - startTime (currentCycle g)) / (d * 1000)) \<in> {1..5}"
proof -
  define p where "p = real_of_int (now - startTime (currentCycle g)) / (d * 1000)"
  have p0: "0 \<le> p" using assms(3,4) by (simp add: p_def)
  have p1: "p < 1" using assms(3,5) by (simp add: p_def)
  have "toolNumber now g
          = Fin (of_int (\<lfloor>real_of_int (now - startTime (currentCycle g)) / (d * 1000) * 5\<rfloor> + 1))"
    using assms(1,2,3) by (simp add: toolNumber_def Let_def)
  then have tn: "toolNumber now g = Fin (of_int (\<lfloor>p * 5\<rfloor> + 1))"
    by (simp only: p_def)
  have "0 \<le> p * 5" using p0 by simp
  then have lo: "0 \<le> \<lfloor>p * 5\<rfloor>" by (simp only: zero_le_floor)
  have "p * 5 < 5" using p1 by simp
  then have "\<lfloor>p * 5\<rfloor> < 5" by (simp only: floor_less_iff of_int_numeral)
  then have hi: "\<lfloor>p * 5\<rfloor> \<le> 4" by simp
  have fl: "\<lfloor>min (max p 0) 0.999 * 5\<rfloor> = \<lfloor>p * 5\<rfloor>"
  proof (cases "p \<le> 0.999")
    case True
    with p0 show ?thesis by (simp add: max_def min_def)
  next
    case False
    then have m: "min (max p 0) 0.999 = 0.999" using p0 by (simp add: max_def min_def)
    have "4 \<le> p * 5" using False by simp
    then have "4 \<le> \<lfloor>p * 5\<rfloor>" by (simp only: le_floor_iff of_int_numeral)
    with hi have "\<lfloor>p * 5\<rfloor> = 4" by (rule order_antisym)
    moreover have "\<lfloor>(0.999 :: real) * 5\<rfloor> = 4" by (simp add: floor_eq_iff)
    ultimately show ?thesis by (simp only: m)
  qed
  have idx: "spec_tool_index p = \<lfloor>p * 5\<rfloor> + 1"
    by (simp only: spec_tool_index_def fl)
  have "toolNumber now g = Fin (of_int (spec_tool_index p))"
    using tn by (simp only: idx)
  moreover have "spec_tool_index p \<in> {1..5}"
    unfolding idx using lo hi by simp
  ultimately have "toolNumber now g = Fin (of_int (spec_tool_index p)) \<and> spec_tool_index p \<in> {1..5}"
    by (rule conjI)
  then show ?thesis by (simp only: p_def)
qed

lemma race_cycle_kept:
  "updateCycle 599999 599999 (1/2) (1/2) (example_generator P_machining 600)
     = example_generator P_machining 600"
  by (simp add: updateCycle_def example_generator_def)

text \<open>
  C6.  The current-tool reading at the end of a machining phase.  The phase of 600
  seconds began at time 0; \<open>updateCycle\<close> reads the clock at 599999, one millisecond
  before the end, and leaves the phase as it is; \<open>generateCurrentToolPayload\<close> reads
  the clock at 600000.  The reading published under \<open>current-tool\<close> then has the value
  6, where the index of the specification is 5: the progress fraction is not clamped.
\<close>

theorem current_tool_six_at_phase_end:
  "phase (currentCycle (snd (generateSensorReadings race_env (example_generator P_machining 600))))
     = P_machining
   \<and> topicPath (fst (generateSensorReadings race_env (example_generator P_machining 600)) ! 8)
       = ''demo-factory/plant1/machining/cell-01/cnc-001/info/sensors/current-tool''
   \<and> payload_value (payload (fst (generateSensorReadings race_env (example_generator P_machining 600)) ! 8))
       = JNum (Fin 6)
   \<and> spec_tool_index (real_of_int (600000 - 0) / (600 * 1000)) = 5"
proof -
  have e: "Date_now race_env In_updateCycle = 599999" "Date_now race_env In_advanceCyclePhase = 599999"
    "Math_random race_env In_advanceCyclePhase_branch = 1/2" "Math_random race_env In_advanceCyclePhase = 1/2"
    "Date_now race_env In_CurrentTool = 600000" "OUTPUT_FORMAT race_env = None"
    by (simp_all add: race_env_def)
  have tn: "toolNumber 600000 (example_generator P_machining 600) = Fin 6"
    by (simp add: toolNumber_def example_generator_def)
  have m: "machine (example_generator P_machining 600) = example_config"
    and ph: "phase (currentCycle (example_generator P_machining 600)) = P_machining"
    by (simp_all add: example_generator_def)
  have ax: "slice0 axis_labels (axes (caps example_config)) = [''x'', ''y'', ''z'']"
    by (simp add: slice0_def axis_labels_def example_config_def mk_machine_def)
  have s: "spec_tool_index 1 = 5"
    by (simp add: spec_tool_index_def floor_eq_iff)
  have tp: "enterprise example_config @ ''/'' @ site example_config @ ''/'' @ area example_config @ ''/''
              @ work_cell example_config @ ''/'' @ machine_id example_config @ ''/info/sensors/current-tool''
            = ''demo-factory/plant1/machining/cell-01/cnc-001/info/sensors/current-tool''"
    by (simp add: example_config_def mk_machine_def)
  show ?thesis
    using tp
    by (simp add: generateSensorReadings_def Let_def e race_cycle_kept m ph ax s
        env_or_def is_umh_format_def generateCurrentToolPayload_def tn)
qed


lemma snd_generateSensorReadings:
  "snd (generateSensorReadings e g) =
     (updateCycle (Date_now e In_updateCycle) (Date_now e In_advanceCyclePhase)
        (Math_random e In_advanceCyclePhase_branch) (Math_random e In_advanceCyclePhase) g)
     \<lparr>lastUpdate := Date_now e In_generateSensorReadings\<rparr>"
  by (simp add: generateSensorReadings_def Let_def)

lemma updateCycle_keeps:
  "machine (updateCycle now adv rb r g) = machine g
   \<and> toolWearFactors (updateCycle now adv rb r g) = toolWearFactors g
   \<and> cycleStartTime (updateCycle now adv rb r g) = cycleStartTime g
   \<and> vibrationBaseline (updateCycle now adv rb r g) = vibrationBaseline g
   \<and> temperatureBaseline (updateCycle now adv rb r g) = temperatureBaseline g
   \<and> lastUpdate (updateCycle now adv rb r g) = lastUpdate g"
  by (cases "phase (currentCycle g)") (simp_all add: updateCycle_def advanceCyclePhase_def Let_def)

text \<open>
  C7, as the code has it.  A tick leaves the wear fraction of every tool as it was, so the
  recorded wear is constant, hence non-decreasing, from tick to tick; and the wear
  percentage reported with the current-tool reading is the stored wear of the tool
  that the elapsed time selects, times 100 and rounded.
\<close>

theorem tool_wear_unchanged_by_tick:
  "toolWearFactors (snd (generateSensorReadings e g)) = toolWearFactors g
   \<and> tool_wear_percent (generateCurrentToolPayload e ts g)
       = num (round_real (wear_of (toolWearFactors g) (toolNumber (Date_now e In_CurrentTool) g) * 100))"
  by (simp add: snd_generateSensorReadings updateCycle_keeps tool_wear_percent_def
      generateCurrentToolPayload_def Let_def)

lemma example_tick_kept:
  assumes "0 \<le> t" and "t < 600000"
  shows "snd (generateSensorReadings (example_env t r) ((example_generator P_machining 600)\<lparr>lastUpdate := u\<rparr>))
           = (example_generator P_machining 600)\<lparr>lastUpdate := t\<rparr>"
  using assms
  by (simp add: snd_generateSensorReadings updateCycle_def example_env_def example_generator_def)

text \<open>
  C7, the claim refuted.  A machining phase of 600 seconds with the tools 1 and 2 worn
  to 0.25 and 0.1: the ticks at 60, 90 and 150 seconds report the wear percentages 25,
  25 and 10.  The reported wear of the selected tool does not increase with the elapsed
  machining time, and falls when the tool changes.
\<close>

theorem reported_tool_wear_not_increasing:
  "tool_wear_percent (generateCurrentToolPayload (example_env 60000 (1/2)) 60000
      (snd (generateSensorReadings (example_env 60000 (1/2)) (example_generator P_machining 600))))
     = num 25
   \<and> tool_wear_percent (generateCurrentToolPayload (example_env 90000 (1/2)) 90000
        (snd (generateSensorReadings (example_env 90000 (1/2))
           (snd (generateSensorReadings (example_env 60000 (1/2)) (example_generator P_machining 600))))))
     = num 25
   \<and> tool_wear_percent (generateCurrentToolPayload (example_env 150000 (1/2)) 150000
        (snd (generateSensorReadings (example_env 150000 (1/2))
           (snd (generateSensorReadings (example_env 90000 (1/2))
              (snd (generateSensorReadings (example_env 60000 (1/2)) (example_generator P_machining 600))))))))
     = num 10"
proof -
  have g0: "example_generator P_machining 600 = (example_generator P_machining 600)\<lparr>lastUpdate := 0\<rparr>"
    by (simp add: example_generator_def)
  have t1: "snd (generateSensorReadings (example_env 60000 (1/2)) (example_generator P_machining 600))
              = (example_generator P_machining 600)\<lparr>lastUpdate := 60000\<rparr>"
    by (subst g0) (simp add: example_tick_kept)
  have t2: "snd (generateSensorReadings (example_env 90000 (1/2))
                   ((example_generator P_machining 600)\<lparr>lastUpdate := 60000\<rparr>))
              = (example_generator P_machining 600)\<lparr>lastUpdate := 90000\<rparr>"
    by (simp add: example_tick_kept)
  have t3: "snd (generateSensorReadings (example_env 150000 (1/2))
                   ((example_generator P_machining 600)\<lparr>lastUpdate := 90000\<rparr>))
              = (example_generator P_machining 600)\<lparr>lastUpdate := 150000\<rparr>"
    by (simp add: example_tick_kept)
  have w: "tool_wear_percent (generateCurrentToolPayload (example_env t (1/2)) t
              ((example_generator P_machining 600)\<lparr>lastUpdate := u\<rparr>))
            = num (round_real (wear_of (toolWearFactors (example_generator P_machining 600))
                                 (toolNumber t (example_generator P_machining 600)) * 100))" for t u
    by (simp add: tool_wear_percent_def generateCurrentToolPayload_def Let_def example_env_def
        toolNumber_def)
  have n1: "toolNumber 60000 (example_generator P_machining 600) = Fin 1"
    and n2: "toolNumber 90000 (example_generator P_machining 600) = Fin 1"
    and n3: "toolNumber 150000 (example_generator P_machining 600) = Fin 2"
    by (simp_all add: toolNumber_def example_generator_def)
  have w1: "wear_of (toolWearFactors (example_generator P_machining 600)) (Fin 1) = 0.25"
    and w2: "wear_of (toolWearFactors (example_generator P_machining 600)) (Fin 2) = 0.1"
    by (simp_all add: wear_of_def example_generator_def)
  show ?thesis
    by (simp add: t1 t2 t3 w n1 n2 n3 w1 w2 round_real_def)
qed


text \<open>
  C8, the claim refuted.  Two calls of \<open>generateSensorReadings\<close> with the same machine, the
  same state and the same clock, in which \<open>Math.random()\<close> returns 0 in the one and 0.5
  in the other: the spindle speed reading is 2430 in the one and 4860 in the other, so
  the readings differ.
\<close>

theorem readings_depend_on_random_draw:
  "payload_value (payload (hd (fst (generateSensorReadings (example_env 0 0)
                                      (example_generator P_machining 600))))) = num 2430
   \<and> payload_value (payload (hd (fst (generateSensorReadings (example_env 0 (1/2))
                                        (example_generator P_machining 600))))) = num 4860
   \<and> fst (generateSensorReadings (example_env 0 0) (example_generator P_machining 600))
       \<noteq> fst (generateSensorReadings (example_env 0 (1/2)) (example_generator P_machining 600))"
proof -
  let ?g = "example_generator P_machining 600"
  have u: "updateCycle 0 0 r r ?g = ?g" for r
    by (simp add: updateCycle_def example_generator_def)
  have h: "payload (hd (fst (generateSensorReadings (example_env 0 r) ?g)))
             = generateSpindleSpeedPayload (example_env 0 r) 0 ?g" for r
    by (simp add: generateSensorReadings_def Let_def example_env_def u)
  have v: "payload_value (generateSpindleSpeedPayload (example_env 0 r) 0 ?g)
             = num (max 0 (round_real (8100 * (0.3 + r * 0.6))))" for r
    by (simp add: generateSpindleSpeedPayload_def Let_def example_env_def example_generator_def
        example_config_def mk_machine_def)
  have a: "payload_value (payload (hd (fst (generateSensorReadings (example_env 0 0) ?g)))) = num 2430"
    by (simp add: h v round_real_def)
  have b: "payload_value (payload (hd (fst (generateSensorReadings (example_env 0 (1/2)) ?g)))) = num 4860"
    by (simp add: h v round_real_def)
  have "num 2430 \<noteq> num 4860" by (simp add: num_def)
  with a b have "fst (generateSensorReadings (example_env 0 0) ?g)
                   \<noteq> fst (generateSensorReadings (example_env 0 (1/2)) ?g)"
    by metis
  with a b show ?thesis by simp
qed

text \<open>
  C8, as the code has it.  The readings are determined by the machine, the state, the
  clock and the values that \<open>Math.random()\<close> returns (with the runtime's \<open>parseFloat\<close>
  and the \<open>OUTPUT_FORMAT\<close> variable).  The payloads of axis position, current tool,
  operational status, cycle phase, parts count and efficiency are functions of the
  state and the clock alone, whatever the draws, and so are those of spindle speed and
  feedrate in a state that is not machining; calls that agree on the draws and the
  output format as well give the same readings and the same next state.  A call
  changes the cycle, the parts counter and \<open>lastUpdate\<close> only: the machine, the tool
  wear, the two baselines and the cycle start time stay.
\<close>

theorem readings_determined_up_to_draws:
  assumes "Date_now e2 = Date_now e1" and "parseFloat e2 = parseFloat e1"
  shows "generateAxisPositionPayload e2 axis ts g = generateAxisPositionPayload e1 axis ts g
       \<and> generateCurrentToolPayload e2 ts g = generateCurrentToolPayload e1 ts g
       \<and> generateOperationalStatusPayload e2 ts g = generateOperationalStatusPayload e1 ts g
       \<and> generateCyclePhasePayload e2 ts g = generateCyclePhasePayload e1 ts g
       \<and> generatePartsCountPayload e2 ts g = generatePartsCountPayload e1 ts g
       \<and> generateEfficiencyPayload e2 ts g = generateEfficiencyPayload e1 ts g
       \<and> (phase (currentCycle g) \<noteq> P_machining \<longrightarrow>
            generateSpindleSpeedPayload e2 ts g = generateSpindleSpeedPayload e1 ts g
            \<and> generateFeedratePayload e2 ts g = generateFeedratePayload e1 ts g)
       \<and> (Math_random e2 = Math_random e1 \<and> OUTPUT_FORMAT e2 = OUTPUT_FORMAT e1 \<longrightarrow>
            generateSensorReadings e2 g = generateSensorReadings e1 g)
       \<and> machine (snd (generateSensorReadings e1 g)) = machine g
       \<and> toolWearFactors (snd (generateSensorReadings e1 g)) = toolWearFactors g
       \<and> vibrationBaseline (snd (generateSensorReadings e1 g)) = vibrationBaseline g
       \<and> temperatureBaseline (snd (generateSensorReadings e1 g)) = temperatureBaseline g
       \<and> cycleStartTime (snd (generateSensorReadings e1 g)) = cycleStartTime g"
proof -
  have p1: "generateAxisPositionPayload e2 axis ts g = generateAxisPositionPayload e1 axis ts g"
    unfolding generateAxisPositionPayload_def assms by (rule refl)
  have p2: "generateCurrentToolPayload e2 ts g = generateCurrentToolPayload e1 ts g"
    unfolding generateCurrentToolPayload_def assms by (rule refl)
  have p3: "generateOperationalStatusPayload e2 ts g = generateOperationalStatusPayload e1 ts g"
    unfolding generateOperationalStatusPayload_def assms by (rule refl)
  have p4: "generateCyclePhasePayload e2 ts g = generateCyclePhasePayload e1 ts g"
    unfolding generateCyclePhasePayload_def assms by (rule refl)
  have p5: "generatePartsCountPayload e2 ts g = generatePartsCountPayload e1 ts g"
    unfolding generatePartsCountPayload_def assms by (rule refl)
  have p6: "generateEfficiencyPayload e2 ts g = generateEfficiencyPayload e1 ts g"
    unfolding generateEfficiencyPayload_def assms by (rule refl)
  have p7: "generateSpindleSpeedPayload e2 ts g = generateSpindleSpeedPayload e1 ts g
            \<and> generateFeedratePayload e2 ts g = generateFeedratePayload e1 ts g"
    if "phase (currentCycle g) \<noteq> P_machining"
    using that unfolding generateSpindleSpeedPayload_def generateFeedratePayload_def assms
    by (cases "phase (currentCycle g)") simp_all
  have p8: "generateSensorReadings e2 g = generateSensorReadings e1 g"
    if "Math_random e2 = Math_random e1 \<and> OUTPUT_FORMAT e2 = OUTPUT_FORMAT e1"
  proof -
    have "e2 = e1" using that assms by (cases e1, cases e2) simp
    then show ?thesis by simp
  qed
  show ?thesis
    using p1 p2 p3 p4 p5 p6 p7 p8
    by (simp add: snd_generateSensorReadings updateCycle_keeps)
qed

theorem readings_determined_up_to_draws_witness:
  "generateSpindleSpeedPayload (example_env 1000 (3/4)) 1000 (example_generator P_loading 100)
     = generateSpindleSpeedPayload (example_env 1000 (1/4)) 1000 (example_generator P_loading 100)
   \<and> payload_value (generateSpindleSpeedPayload (example_env 1000 (1/4)) 1000
                       (example_generator P_loading 100)) = num 810
   \<and> generateCurrentToolPayload (example_env 1000 (3/4)) 1000 (example_generator P_loading 100)
     = generateCurrentToolPayload (example_env 1000 (1/4)) 1000 (example_generator P_loading 100)"
proof -
  have e: "Date_now (example_env 1000 (3/4)) = Date_now (example_env 1000 (1/4))"
    "parseFloat (example_env 1000 (3/4)) = parseFloat (example_env 1000 (1/4))"
    by (simp_all add: example_env_def)
  have p: "phase (currentCycle (example_generator P_loading 100)) \<noteq> P_machining"
    by (simp add: example_generator_def)
  have v: "payload_value (generateSpindleSpeedPayload (example_env 1000 (1/4)) 1000
                       (example_generator P_loading 100)) = num 810"
    by (simp add: generateSpindleSpeedPayload_def Let_def example_generator_def example_config_def
        mk_machine_def round_real_def)
  from readings_determined_up_to_draws [OF e, of "''x''" 1000 "example_generator P_loading 100"] p v
  show ?thesis by simp
qed


end
